theory Spec2Isabelle
  imports Main "HOL-Library.Sublist" "HOL-Library.AList"
begin

section \<open>Python values the launcher handles\<close>

text \<open>
  Exceptions are values. Only the classes the launcher raises or catches are told apart;
  \<open>OSError\<close> stands for itself and its library subclasses (a missing file, a denied
  permission), \<open>YAMLError\<close> for the parser's errors, \<open>ValueError\<close> also for the schema
  validator's error, which derives from it. Every class here derives from \<open>Exception\<close>;
  interrupts that derive from \<open>BaseException\<close> only are outside the model. \<open>msg\<close> is what
  \<open>str\<close> gives for the exception, \<open>cause\<close> what \<open>raise ... from\<close> sets. Errors raised by the
  interpreter itself (a bad subscript, a missing attribute) carry no message here.
\<close>

datatype exn_class =
    YAMLError | OSError | FileExistsError | ValueError | RuntimeError
  | AssertionError | KeyError | TypeError | AttributeError | OtherError

datatype exn = Exn (cls: exn_class) (msg: string) (cause: "exn option")

text \<open>The class hierarchy: besides every class itself, \<open>FileExistsError\<close> is an \<open>OSError\<close>.\<close>

definition issubclass :: "exn_class \<Rightarrow> exn_class \<Rightarrow> bool" where
  "issubclass c d = (c = d \<or> (c = FileExistsError \<and> d = OSError))"

definition isinstance :: "exn \<Rightarrow> exn_class \<Rightarrow> bool" where
  "isinstance e c = issubclass (cls e) c"

text \<open>
  What \<open>yaml.safe_load\<close> returns. Mapping keys are strings (the launcher only ever looks up
  string keys); a float is kept as its text.
\<close>

datatype yaml =
    YNull | YBool bool | YInt int | YFloat string | YStr string
  | YList "yaml list" | YDict "(string \<times> yaml) list"

text \<open>\<open>raw_args[k]\<close>: a \<open>KeyError\<close> on a dict without the key, a \<open>TypeError\<close> on anything else.\<close>

fun subscript :: "yaml \<Rightarrow> string \<Rightarrow> exn + yaml" where
  "subscript (YDict d) k =
     (case map_of d k of
        Some v \<Rightarrow> Inr v
      | None \<Rightarrow> Inl (Exn KeyError ([CHR 0x27] @ k @ [CHR 0x27]) None))"
| "subscript _ k = Inl (Exn TypeError [] None)"

text \<open>\<open>raw_args.keys()\<close>: only a dict has the method.\<close>

fun yaml_keys :: "yaml \<Rightarrow> exn + string list" where
  "yaml_keys (YDict d) = Inr (map fst d)"
| "yaml_keys _ = Inl (Exn AttributeError [] None)"

text \<open>
  \<open>nb_params.update(v)\<close>. A dict is merged key by key. Anything else is read as a sequence
  of pairs: a value that cannot be iterated, or an element that cannot, or an unhashable
  key, is a \<open>TypeError\<close>; an element that does not have two items is a \<open>ValueError\<close>.
\<close>

fun update_element :: "yaml \<Rightarrow> exn + (yaml \<times> yaml)" where
  "update_element (YStr s) =
     (case s of [a, b] \<Rightarrow> Inr (YStr [a], YStr [b]) | _ \<Rightarrow> Inl (Exn ValueError [] None))"
| "update_element (YList l) =
     (case l of
        [YList _, _] \<Rightarrow> Inl (Exn TypeError [] None)
      | [YDict _, _] \<Rightarrow> Inl (Exn TypeError [] None)
      | [k, v] \<Rightarrow> Inr (k, v)
      | _ \<Rightarrow> Inl (Exn ValueError [] None))"
| "update_element (YDict d) =
     (case d of [(a, _), (b, _)] \<Rightarrow> Inr (YStr a, YStr b) | _ \<Rightarrow> Inl (Exn ValueError [] None))"
| "update_element _ = Inl (Exn TypeError [] None)"

fun update_sequence :: "yaml list \<Rightarrow> exn option" where
  "update_sequence [] = None"
| "update_sequence (x # xs) =
     (case update_element x of Inl e \<Rightarrow> Some e | Inr _ \<Rightarrow> update_sequence xs)"

text \<open>
  The result of a sequence update is not kept: the launcher's next statement calls
  \<open>.keys()\<close> on the same value, which no sequence has, so only the error matters.
\<close>

fun dict_update :: "(string \<times> yaml) list \<Rightarrow> yaml \<Rightarrow> exn + (string \<times> yaml) list" where
  "dict_update p (YDict d) = Inr (fold (\<lambda>(k, v). AList.update k v) d p)"
| "dict_update p (YStr s) =
     (case update_sequence (map (\<lambda>c. YStr [c]) s) of Some e \<Rightarrow> Inl e | None \<Rightarrow> Inr p)"
| "dict_update p (YList l) =
     (case update_sequence l of Some e \<Rightarrow> Inl e | None \<Rightarrow> Inr p)"
| "dict_update p _ = Inl (Exn TypeError [] None)"

text \<open>\<open>'%s' % x\<close> for a name that may still be \<open>None\<close>.\<close>

definition str_opt :: "string option \<Rightarrow> string" where
  "str_opt x = (case x of None \<Rightarrow> ''None'' | Some s \<Rightarrow> s)"

section \<open>Paths\<close>

text \<open>\<open>str.rfind\<close> for one character: the last index, or \<open>-1\<close>.\<close>

definition rfind :: "string \<Rightarrow> char \<Rightarrow> int" where
  "rfind p c =
     (if c \<in> set p then int (length p) - 1 - int (length (takeWhile (\<lambda>x. x \<noteq> c) (rev p)))
      else - 1)"

text \<open>
  \<open>os.path.split\<close> (POSIX): the tail is what follows the last slash; the head loses its
  trailing slashes unless it is made of slashes only.
\<close>

definition os_path_split :: "string \<Rightarrow> string \<times> string" where
  "os_path_split p =
     (let i = nat (rfind p (CHR ''/'') + 1);
          head = take i p;
          tail = drop i p
      in if head \<noteq> [] \<and> head \<noteq> replicate (length head) (CHR ''/'')
         then (rev (dropWhile (\<lambda>c. c = CHR ''/'') (rev head)), tail)
         else (head, tail))"

text \<open>
  \<open>os.path.splitext\<close>: the extension starts at the last dot, provided that dot comes after
  the last slash and some character between the two is not a dot.
\<close>

definition os_path_splitext :: "string \<Rightarrow> string \<times> string" where
  "os_path_splitext p =
     (let sepIndex = rfind p (CHR ''/'');
          dotIndex = rfind p (CHR ''.'')
      in if dotIndex > sepIndex \<and>
            list_ex (\<lambda>c. c \<noteq> CHR ''.'')
              (take (nat dotIndex - nat (sepIndex + 1)) (drop (nat (sepIndex + 1)) p))
         then (take (nat dotIndex) p, drop (nat dotIndex) p)
         else (p, []))"

text \<open>\<open>os.path.join\<close> of two parts.\<close>

definition os_path_join :: "string \<Rightarrow> string \<Rightarrow> string" where
  "os_path_join a b =
     (if b \<noteq> [] \<and> hd b = CHR ''/'' then b
      else if a = [] \<or> last a = CHR ''/'' then a @ b
      else a @ ''/'' @ b)"

section \<open>The outside world and what the launcher does to it\<close>

text \<open>
  The launcher is glue around other programs and libraries. What they answer is a parameter
  of the model (the record \<open>world\<close>: one field for each call the launcher makes, giving the
  call's result or the exception it raises), and what the launcher asks of them is recorded
  in a trace of events. The module \<open>constants\<close> is not part of the sources, so its four
  paths are fields of the world too.
\<close>

datatype schema = Schema string

datatype ydata = YData string

datatype checker_call = Construct | Run | Check

record nb_args =
  nb_testname :: string
  nb_result :: string
  nb_run_pipeline :: yaml
  nb_experiment_name :: string
  nb_host :: string

record py_args =
  py_testname :: string
  py_input :: "string option"
  py_output :: string
  py_result :: string
  py_host :: string
  py_namespace :: string
  py_experiment_name :: string

datatype event =
    Print string
  | LoadInclusterConfig
  | LoadKubeConfig
  | ExecuteNotebook string string "(string \<times> yaml) list"
  | Subprocess "string list" "exn + int"
  | CreateTempFile string
  | WriteFile string string
  | SetEnv string string
  | Chdir string
  | NoteBookChecker nb_args checker_call
  | PySampleChecker py_args checker_call

record world =
  CONFIG_DIR :: string
  DEFAULT_CONFIG :: string
  SCHEMA_CONFIG :: string
  SAMPLE_TEST_DIR :: string
  isfile :: "string \<Rightarrow> bool"
  make_schema :: "string \<Rightarrow> exn + schema"
  open_r :: "string \<Rightarrow> exn + string"
  safe_load :: "string \<Rightarrow> exn + yaml"
  make_data :: "string \<Rightarrow> exn + ydata"
  validate :: "schema \<Rightarrow> ydata \<Rightarrow> exn option"
  execute_notebook :: "string \<Rightarrow> string \<Rightarrow> (string \<times> yaml) list \<Rightarrow> exn option"
  subprocess_call :: "string list \<Rightarrow> exn + int"
  named_temporary_file :: "exn + string"
  load_incluster_config :: "exn option"
  load_kube_config :: "exn option"
  chdir :: "string \<Rightarrow> exn option"
  notebook_checker_call :: "nb_args \<Rightarrow> checker_call \<Rightarrow> exn option"
  pysample_checker_call :: "py_args \<Rightarrow> checker_call \<Rightarrow> exn option"
  re_word :: "char \<Rightarrow> bool"

text \<open>
  A statement runs on the object's state and gives the state it leaves, the events it
  caused, and either an exception or a value. A raised exception keeps the state and the
  events there were: an attribute assigned before a \<open>raise\<close> stays assigned.
\<close>

type_synonym ('s, 'a) act = "'s \<Rightarrow> 's \<times> event list \<times> (exn + 'a)"

definition ret :: "'a \<Rightarrow> ('s, 'a) act" where
  "ret x s = (s, [], Inr x)"

definition raise :: "exn \<Rightarrow> ('s, 'a) act" where
  "raise e s = (s, [], Inl e)"

definition bnd :: "('s, 'a) act \<Rightarrow> ('a \<Rightarrow> ('s, 'b) act) \<Rightarrow> ('s, 'b) act" where
  "bnd m f s =
     (case m s of
        (s1, t1, Inl e) \<Rightarrow> (s1, t1, Inl e)
      | (s1, t1, Inr x) \<Rightarrow> (case f x s1 of (s2, t2, r) \<Rightarrow> (s2, t1 @ t2, r)))"

definition emit :: "event \<Rightarrow> ('s, unit) act" where
  "emit ev s = (s, [ev], Inr ())"

definition getf :: "('s \<Rightarrow> 'a) \<Rightarrow> ('s, 'a) act" where
  "getf f s = (s, [], Inr (f s))"

definition setf :: "('s \<Rightarrow> 's) \<Rightarrow> ('s, unit) act" where
  "setf f s = (f s, [], Inr ())"

text \<open>The answer of the world to a call that returns a value, and to one that returns nothing.\<close>

definition call :: "exn + 'a \<Rightarrow> ('s, 'a) act" where
  "call r s = (s, [], r)"

definition call_unit :: "exn option \<Rightarrow> ('s, unit) act" where
  "call_unit r s = (s, [], case r of None \<Rightarrow> Inr () | Some e \<Rightarrow> Inl e)"

text \<open>\<open>assert c, m\<close>; assertions are executed (the interpreter's default).\<close>

definition assert_that :: "bool \<Rightarrow> string \<Rightarrow> ('s, unit) act" where
  "assert_that c m = (if c then ret () else raise (Exn AssertionError m None))"

text \<open>
  \<open>try: body except ...: handler else: orelse\<close>. The handlers are tried on an exception of
  the body only, the first \<open>except\<close> clause that fits wins (\<open>handlers e\<close> is its block, or
  \<open>None\<close> when no clause fits and the exception goes on); what a handler or the \<open>else\<close>
  block raises is not caught here.
\<close>

definition try_except ::
  "('s, 'a) act \<Rightarrow> (exn \<Rightarrow> ('s, 'b) act option) \<Rightarrow> ('a \<Rightarrow> ('s, 'b) act) \<Rightarrow> ('s, 'b) act" where
  "try_except body handlers orelse s =
     (case body s of
        (s1, t1, Inl e) \<Rightarrow>
          (case handlers e of
             None \<Rightarrow> (s1, t1, Inl e)
           | Some h \<Rightarrow> (case h s1 of (s2, t2, r) \<Rightarrow> (s2, t1 @ t2, r)))
      | (s1, t1, Inr x) \<Rightarrow> (case orelse x s1 of (s2, t2, r) \<Rightarrow> (s2, t1 @ t2, r)))"

text \<open>\<open>subprocess.call\<close>: the command and what came of it are recorded.\<close>

definition subprocess :: "world \<Rightarrow> string list \<Rightarrow> ('s, int) act" where
  "subprocess w args =
     bnd (emit (Subprocess args (subprocess_call w args))) (\<lambda>_. call (subprocess_call w args))"

section \<open>SampleTest\<close>

text \<open>
  The attributes of a \<open>SampleTest\<close> object, without their leading underscore. An attribute
  that can hold \<open>None\<close> is an option; \<open>run_pipeline\<close> is \<open>None\<close> until \<open>_compile\<close> assigns it.
  \<open>func\<close> is the attribute \<open>_function\<close>.
\<close>

record sample_test =
  test_name :: "string option"
  test_path :: string
  compiled_path :: "string option"
  results_gcs_dir :: string
  func :: "string option"
  target_image_prefix :: string
  namespace :: string
  host :: string
  is_notebook :: "bool option"
  sample_test_result :: string
  sample_test_output :: string
  run_pipeline :: "yaml option"

subsection \<open>\<open>__init__\<close>\<close>

text \<open>
  Lines 64 to 77: with an empty host, the in-cluster configuration is tried, then, on any
  exception, the kube-config; an exception that is left becomes a \<open>RuntimeError\<close>.
\<close>

definition load_config_either :: "world \<Rightarrow> ('s, unit) act" where
  "load_config_either w =
     try_except
       (bnd (emit LoadInclusterConfig) (\<lambda>_. call_unit (load_incluster_config w)))
       (\<lambda>_. Some (bnd (emit LoadKubeConfig) (\<lambda>_. call_unit (load_kube_config w))))
       ret"

definition discover_host :: "world \<Rightarrow> ('a sample_test_scheme, unit) act" where
  "discover_host w =
     bnd (getf host) (\<lambda>h.
       if h = [] then
         try_except
           (bnd (load_config_either w) (\<lambda>_.
              setf (\<lambda>st. st\<lparr>host := ''http://localhost:8888''\<rparr>)))
           (\<lambda>err. Some (raise (Exn RuntimeError ''Failed to get inverse proxy hostname'' (Some err))))
           ret
       else ret ())"

text \<open>
  The body of \<open>__init__\<close> from line 64 on, run on the object as lines 56 to 63 leave it
  (the two attributes that lines 85 and 86 assign hold a placeholder until then).
\<close>

definition init_body :: "world \<Rightarrow> ('a sample_test_scheme, unit) act" where
  "init_body w =
     bnd (discover_host w) (\<lambda>_.
     bnd (getf host) (\<lambda>h.
     bnd (emit (Print (''KFP API healthz endpoint is: '' @ h @ ''/apis/v1beta1/healthz''))) (\<lambda>_.
     bnd (setf (\<lambda>st. st\<lparr>is_notebook := None\<rparr>)) (\<lambda>_.
     bnd (getf test_name) (\<lambda>n.
     bnd (setf (\<lambda>st. st\<lparr>sample_test_result := ''junit_Sample'' @ str_opt n @ ''Output.xml''\<rparr>)) (\<lambda>_.
     bnd (getf results_gcs_dir) (\<lambda>d.
     setf (\<lambda>st. st\<lparr>sample_test_output := d\<rparr>))))))))"

definition SampleTest_init ::
  "world \<Rightarrow> string \<Rightarrow> string \<Rightarrow> string option \<Rightarrow> string \<Rightarrow> string \<Rightarrow> string
     \<Rightarrow> event list \<times> (exn + sample_test)" where
  "SampleTest_init w test_path' results_gcs_dir' function' host' target_image_prefix' namespace' =
     (case init_body w
        \<lparr>test_name = None, test_path = test_path', compiled_path = None,
         results_gcs_dir = results_gcs_dir', func = function',
         target_image_prefix = target_image_prefix', namespace = namespace', host = host',
         is_notebook = None, sample_test_result = [], sample_test_output = [],
         run_pipeline = None\<rparr> of
        (st, tr, Inl e) \<Rightarrow> (tr, Inl e)
      | (st, tr, Inr _) \<Rightarrow> (tr, Inr st))"

subsection \<open>\<open>_compile\<close>\<close>

text \<open>
  The body both \<open>try\<close> blocks share (lines 106 to 111 and 127 to 132): open and parse the
  file, read it again as validation data, validate it against the schema.
\<close>

definition load_config :: "world \<Rightarrow> schema \<Rightarrow> string \<Rightarrow> exn + yaml" where
  "load_config w config_schema path =
     (case open_r w path of
        Inl e \<Rightarrow> Inl e
      | Inr f \<Rightarrow>
          (case safe_load w f of
             Inl e \<Rightarrow> Inl e
           | Inr raw_args \<Rightarrow>
               (case make_data w path of
                  Inl e \<Rightarrow> Inl e
                | Inr config \<Rightarrow>
                    (case validate w config_schema config of
                       Some e \<Rightarrow> Inl e
                     | None \<Rightarrow> Inr raw_args))))"

text \<open>Lines 89 to 101: the path must be a file, and its extension decides the kind of test.\<close>

definition compile_kind :: "world \<Rightarrow> ('a sample_test_scheme, unit) act" where
  "compile_kind w =
     bnd (getf test_path) (\<lambda>p.
     bnd (assert_that (isfile w p) (''Specified test path is not a valid file: '' @ p)) (\<lambda>_.
     case os_path_splitext (snd (os_path_split p)) of (name, ext_name) \<Rightarrow>
     bnd (setf (\<lambda>st. st\<lparr>test_name := Some name\<rparr>)) (\<lambda>_.
     if ext_name = ''.py'' then setf (\<lambda>st. st\<lparr>is_notebook := Some False\<rparr>)
     else if ext_name = ''.ipynb'' then setf (\<lambda>st. st\<lparr>is_notebook := Some True\<rparr>)
     else raise (Exn RuntimeError
       (''Unrecognized test path file extension: '' @ [CHR 0x27] @ ext_name @ [CHR 0x27]) None))))"

text \<open>Lines 105 to 117: the default configuration.\<close>

definition default_config :: "world \<Rightarrow> schema \<Rightarrow> ('a sample_test_scheme, unit) act" where
  "default_config w config_schema =
     try_except (call (load_config w config_schema (DEFAULT_CONFIG w)))
       (\<lambda>err.
          if isinstance err YAMLError then
            Some (raise (Exn RuntimeError (''Illegal default config:'' @ msg err) None))
          else if isinstance err OSError then
            Some (raise (Exn FileExistsError (''Default config not found:'' @ msg err) None))
          else None)
       (\<lambda>raw_args.
          bnd (call (subscript raw_args ''run_pipeline'')) (\<lambda>v.
          setf (\<lambda>st. st\<lparr>run_pipeline := Some v\<rparr>)))"

text \<open>Lines 123 to 147: the parameters of a notebook, from the configuration of the test.\<close>

definition test_config ::
  "world \<Rightarrow> schema \<Rightarrow> ('a sample_test_scheme, (string \<times> yaml) list) act" where
  "test_config w config_schema =
     bnd (getf test_name) (\<lambda>n.
     try_except
       (call (load_config w config_schema
          (os_path_join (CONFIG_DIR w) (str_opt n @ ''.config.yaml''))))
       (\<lambda>err.
          if isinstance err YAMLError then
            Some (bnd (emit (Print
                    (''No legit yaml config file found, use default args:'' @ msg err)))
                   (\<lambda>_. ret []))
          else if isinstance err OSError then
            Some (bnd (emit (Print
                    (''Config file with the same name not found, use default args:'' @ msg err)))
                   (\<lambda>_. ret []))
          else None)
       (\<lambda>raw_args.
          bnd (call (yaml_keys raw_args)) (\<lambda>ks.
          bnd (if ''notebook_params'' \<in> set ks then
                 bnd (call (subscript raw_args ''notebook_params'')) (\<lambda>np.
                 bnd (call (dict_update [] np)) (\<lambda>nb_params.
                 bnd (call (yaml_keys np)) (\<lambda>nks.
                 if ''output'' \<in> set nks then
                   bnd (getf sample_test_output) (\<lambda>out.
                   ret (AList.update ''output'' (YStr out) nb_params))
                 else ret nb_params)))
               else ret []) (\<lambda>nb_params.
          bnd (call (yaml_keys raw_args)) (\<lambda>ks'.
          bnd (if ''run_pipeline'' \<in> set ks' then
                 bnd (call (subscript raw_args ''run_pipeline'')) (\<lambda>v.
                 setf (\<lambda>st. st\<lparr>run_pipeline := Some v\<rparr>))
               else ret ()) (\<lambda>_.
          ret nb_params))))))"

text \<open>
  Lines 121 to 158: a notebook is parameterised, prepared and converted to a script. The
  value is the local variable \<open>return_code\<close> as line 155 leaves it.
\<close>

definition nbconvert_args :: "string \<Rightarrow> string list" where
  "nbconvert_args p = [''jupyter'', ''nbconvert'', ''--to'', ''python'', p]"

definition compile_notebook :: "world \<Rightarrow> schema \<Rightarrow> ('a sample_test_scheme, int) act" where
  "compile_notebook w config_schema =
     bnd (test_config w config_schema) (\<lambda>nb_params.
     bnd (getf test_path) (\<lambda>p.
     bnd (emit (ExecuteNotebook p p nb_params)) (\<lambda>_.
     bnd (call_unit (execute_notebook w p p nb_params)) (\<lambda>_.
     subprocess w (nbconvert_args p)))))"

text \<open>
  Lines 162 to 177: the compiler runs on the test path and writes to a fresh temporary
  file. \<open>return_code\<close> is assigned again at line 174, whatever it held before.
\<close>

definition compile_args :: "string \<Rightarrow> string \<Rightarrow> string option \<Rightarrow> string list" where
  "compile_args p out fn =
     [''kfp'', ''dsl'', ''compile'', ''--py'', p, ''--output'', out]
       @ (case fn of None \<Rightarrow> [] | Some f \<Rightarrow> [''--function'', f])"

definition compile_pipeline :: "world \<Rightarrow> int option \<Rightarrow> ('a sample_test_scheme, unit) act" where
  "compile_pipeline w return_code =
     bnd (call (named_temporary_file w)) (\<lambda>f_name.
     bnd (emit (CreateTempFile f_name)) (\<lambda>_.
     bnd (setf (\<lambda>st. st\<lparr>compiled_path := Some f_name\<rparr>)) (\<lambda>_.
     bnd (getf test_path) (\<lambda>p.
     bnd (getf func) (\<lambda>fn.
     bnd (subprocess w (compile_args p f_name fn)) (\<lambda>return_code.
     assert_that (return_code = 0) []))))))"

text \<open>
  \<open>_compile\<close>: lines 89 to 158, whose value is \<open>return_code\<close> (\<open>None\<close> while it is not
  assigned), and then lines 162 to 177.
\<close>

definition compile_prepare :: "world \<Rightarrow> ('a sample_test_scheme, int option) act" where
  "compile_prepare w =
     bnd (compile_kind w) (\<lambda>_.
     bnd (call (make_schema w (SCHEMA_CONFIG w))) (\<lambda>config_schema.
     bnd (default_config w config_schema) (\<lambda>_.
     bnd (getf is_notebook) (\<lambda>nb.
     if nb = Some True then
       bnd (compile_notebook w config_schema) (\<lambda>return_code. ret (Some return_code))
     else ret None))))"

definition compile :: "world \<Rightarrow> ('a sample_test_scheme, unit) act" where
  "compile w = bnd (compile_prepare w) (\<lambda>return_code. compile_pipeline w return_code)"

subsection \<open>\<open>_injection\<close> and \<open>run_test\<close>\<close>

text \<open>Lines 179 to 184: a plain sample test injects nothing.\<close>

definition SampleTest_injection :: "world \<Rightarrow> ('a sample_test_scheme, unit) act" where
  "SampleTest_injection w = ret ()"

text \<open>
  Lines 186 to 217, with the \<open>_injection\<close> of the object's class as a parameter. The two
  checkers are helpers outside the sources: constructing one, and its \<open>run\<close> and \<open>check\<close>,
  are calls to the world.
\<close>

definition checker_nb :: "world \<Rightarrow> nb_args \<Rightarrow> checker_call \<Rightarrow> ('s, unit) act" where
  "checker_nb w a c = bnd (emit (NoteBookChecker a c)) (\<lambda>_. call_unit (notebook_checker_call w a c))"

definition checker_py :: "world \<Rightarrow> py_args \<Rightarrow> checker_call \<Rightarrow> ('s, unit) act" where
  "checker_py w a c = bnd (emit (PySampleChecker a c)) (\<lambda>_. call_unit (pysample_checker_call w a c))"

definition change_dir :: "world \<Rightarrow> string \<Rightarrow> ('s, unit) act" where
  "change_dir w d = bnd (emit (Chdir d)) (\<lambda>_. call_unit (chdir w d))"

definition run_checkers :: "world \<Rightarrow> ('a sample_test_scheme, unit) act" where
  "run_checkers w =
     bnd (getf id) (\<lambda>st.
     bnd (case test_name st of
            None \<Rightarrow> raise (Exn TypeError [] None)
          | Some n \<Rightarrow> ret (n, n @ ''-test'')) (\<lambda>(n, experiment_name).
     bnd (emit (SetEnv ''KF_PIPELINES_OVERRIDE_EXPERIMENT_NAME'' experiment_name)) (\<lambda>_.
     if is_notebook st = Some True then
       bnd (case run_pipeline st of
              None \<Rightarrow> raise (Exn AttributeError [] None)
            | Some v \<Rightarrow> ret v) (\<lambda>rp.
       let nbchecker = \<lparr>nb_testname = n, nb_result = sample_test_result st,
                         nb_run_pipeline = rp, nb_experiment_name = experiment_name,
                         nb_host = host st\<rparr>
       in bnd (checker_nb w nbchecker Construct) (\<lambda>_.
          bnd (checker_nb w nbchecker Run) (\<lambda>_.
          bnd (change_dir w (SAMPLE_TEST_DIR w)) (\<lambda>_.
          checker_nb w nbchecker Check))))
     else
       bnd (change_dir w (SAMPLE_TEST_DIR w)) (\<lambda>_.
       let pysample_checker = \<lparr>py_testname = n, py_input = compiled_path st,
                                py_output = sample_test_output st,
                                py_result = sample_test_result st, py_host = host st,
                                py_namespace = namespace st,
                                py_experiment_name = experiment_name\<rparr>
       in bnd (checker_py w pysample_checker Construct) (\<lambda>_.
          bnd (checker_py w pysample_checker Run) (\<lambda>_.
          checker_py w pysample_checker Check))))))"

definition run_test ::
  "(world \<Rightarrow> ('a sample_test_scheme, unit) act) \<Rightarrow> world \<Rightarrow> ('a sample_test_scheme, unit) act" where
  "run_test injection w =
     bnd (compile w) (\<lambda>_.
     bnd (injection w) (\<lambda>_.
     run_checkers w))"

definition SampleTest_run_test :: "world \<Rightarrow> (sample_test, unit) act" where
  "SampleTest_run_test = run_test SampleTest_injection"

section \<open>Regular expressions\<close>

text \<open>
  The patterns of \<open>ComponentTest._injection\<close> use literal text, character classes,
  sequence, alternation and \<open>+\<close>. \<open>in_lang r m\<close> says that the whole of \<open>m\<close> matches \<open>r\<close>.
  Text is a list of 8-bit characters; which of them a class accepts is a predicate.
\<close>

datatype rx = Str string | Cls "char \<Rightarrow> bool" | Seq rx rx | Alt rx rx | Plus rx

inductive in_lang :: "rx \<Rightarrow> string \<Rightarrow> bool" where
  in_Str: "in_lang (Str t) t"
| in_Cls: "P c \<Longrightarrow> in_lang (Cls P) [c]"
| in_Seq: "in_lang a u \<Longrightarrow> in_lang b v \<Longrightarrow> in_lang (Seq a b) (u @ v)"
| in_AltL: "in_lang a u \<Longrightarrow> in_lang (Alt a b) u"
| in_AltR: "in_lang b u \<Longrightarrow> in_lang (Alt a b) u"
| in_Plus1: "in_lang a u \<Longrightarrow> in_lang (Plus a) u"
| in_PlusS: "in_lang a u \<Longrightarrow> in_lang (Plus a) v \<Longrightarrow> in_lang (Plus a) (u @ v)"

text \<open>
  The backtracking matcher: \<open>matches r s\<close> lists what is left of \<open>s\<close> after each way of
  matching \<open>r\<close> at its start, in the order the engine tries them (the left alternative
  first, one more repetition before stopping). A repetition that consumed nothing is not
  repeated.
\<close>

function matches :: "rx \<Rightarrow> string \<Rightarrow> string list" where
  "matches (Str t) s = (if prefix t s then [drop (length t) s] else [])"
| "matches (Cls P) s = (case s of [] \<Rightarrow> [] | c # cs \<Rightarrow> if P c then [cs] else [])"
| "matches (Seq a b) s = concat (map (matches b) (matches a s))"
| "matches (Alt a b) s = matches a s @ matches b s"
| "matches (Plus a) s =
     concat (map (\<lambda>s'. (if length s' < length s then matches (Plus a) s' else []) @ [s'])
       (matches a s))"
  by pat_completeness auto
termination
  by (relation "measures [\<lambda>(r, s). size r, \<lambda>(r, s). length s]") auto

declare matches.simps [simp del]

text \<open>
  \<open>re.sub\<close> goes through the text from the left: where the pattern matches, the first
  match the engine finds is a \<open>Hit\<close>, and the search goes on behind it; where it does not,
  one character is kept. An empty match is a hit too, and the character behind it is kept.
\<close>

datatype piece = Keep string | Hit string

function scan :: "rx \<Rightarrow> string \<Rightarrow> piece list" where
  "scan r s =
     (case matches r s of
        s' # _ \<Rightarrow>
          if length s' < length s then Hit (take (length s - length s') s) # scan r s'
          else (case s of [] \<Rightarrow> [Hit []] | c # cs \<Rightarrow> Hit [] # Keep [c] # scan r cs)
      | [] \<Rightarrow> (case s of [] \<Rightarrow> [] | c # cs \<Rightarrow> Keep [c] # scan r cs))"
  by pat_completeness auto
termination
  by (relation "measure (\<lambda>(r, s). length s)") auto

declare scan.simps [simp del]

fun piece_text :: "piece \<Rightarrow> string" where
  "piece_text (Keep u) = u"
| "piece_text (Hit m) = m"

text \<open>The replacement is taken literally (an image name has no backslash).\<close>

fun piece_sub :: "string \<Rightarrow> piece \<Rightarrow> string" where
  "piece_sub new (Keep u) = u"
| "piece_sub new (Hit m) = new"

definition re_sub :: "rx \<Rightarrow> string \<Rightarrow> string \<Rightarrow> string" where
  "re_sub r new s = concat (map (piece_sub new) (scan r s))"

section \<open>ComponentTest\<close>

record component_test = sample_test +
  local_confusionmatrix_image :: string
  local_roc_image :: string
  dataproc_gcp_image :: string

text \<open>
  \<open>SampleTest.__init__\<close> called with keyword arguments only, as \<open>super().__init__(...)\<close> of
  line 235 does. A keyword that is not the name of a parameter (line 40 to 46) is a
  \<open>TypeError\<close>, and so is a missing \<open>test_path\<close> or \<open>results_gcs_dir\<close>; the other parameters
  have their defaults.
\<close>

definition SampleTest_init_parameters :: "string list" where
  "SampleTest_init_parameters =
     [''test_path'', ''results_gcs_dir'', ''function'', ''host'', ''target_image_prefix'',
      ''namespace'']"

definition SampleTest_init_keywords ::
  "world \<Rightarrow> (string \<times> string) list \<Rightarrow> event list \<times> (exn + sample_test)" where
  "SampleTest_init_keywords w kwargs =
     (if list_ex (\<lambda>(k, v). k \<notin> set SampleTest_init_parameters) kwargs then
        ([], Inl (Exn TypeError [] None))
      else
        case (map_of kwargs ''test_path'', map_of kwargs ''results_gcs_dir'') of
          (Some test_path', Some results_gcs_dir') \<Rightarrow>
            SampleTest_init w test_path' results_gcs_dir' (map_of kwargs ''function'')
              (case map_of kwargs ''host'' of None \<Rightarrow> [] | Some h \<Rightarrow> h)
              (case map_of kwargs ''target_image_prefix'' of None \<Rightarrow> [] | Some t \<Rightarrow> t)
              (case map_of kwargs ''namespace'' of None \<Rightarrow> ''kubeflow'' | Some n \<Rightarrow> n)
        | _ \<Rightarrow> ([], Inl (Exn TypeError [] None)))"

text \<open>
  Lines 227 to 242: \<open>ComponentTest.__init__\<close> hands its \<open>test_name\<close> to the constructor of
  \<open>SampleTest\<close> under the keyword \<open>test_name\<close>, and then assigns the three images.
\<close>

definition ComponentTest_init ::
  "world \<Rightarrow> string \<Rightarrow> string \<Rightarrow> string \<Rightarrow> string \<Rightarrow> string \<Rightarrow> string \<Rightarrow> string
     \<Rightarrow> event list \<times> (exn + component_test)" where
  "ComponentTest_init w test_name' results_gcs_dir' gcp_image local_confusionmatrix_image'
     local_roc_image' target_image_prefix' namespace' =
     (case SampleTest_init_keywords w
             [(''test_name'', test_name'), (''results_gcs_dir'', results_gcs_dir'),
              (''target_image_prefix'', target_image_prefix'), (''namespace'', namespace')] of
        (tr, Inl e) \<Rightarrow> (tr, Inl e)
      | (tr, Inr st) \<Rightarrow>
          (tr, Inr (sample_test.extend st
                      \<lparr>local_confusionmatrix_image = local_confusionmatrix_image',
                       local_roc_image = local_roc_image',
                       dataproc_gcp_image = gcp_image\<rparr>)))"

text \<open>
  The three patterns of lines 247, 249 and 254. \<open>\<^verbatim>\<open>\.\<close>\<close> is a literal dot, \<open>\<^verbatim>\<open>[.-]\<close>\<close> a dot or
  a hyphen, and \<open>\<^verbatim>\<open>\w\<close>\<close> the word characters of the engine, a parameter (\<open>re_word\<close>).
\<close>

definition dot_or_hyphen :: "char \<Rightarrow> bool" where
  "dot_or_hyphen c = (c = CHR ''.'' \<or> c = CHR ''-'')"

definition confusion_matrix_name :: string where
  "confusion_matrix_name = ''gcr.io/ml-pipeline/ml-pipeline/ml-pipeline-local-confusion-matrix''"

definition roc_name :: string where
  "roc_name = ''gcr.io/ml-pipeline/ml-pipeline/ml-pipeline-local-roc''"

definition gcp_name :: string where
  "gcp_name = ''gcr.io/ml-pipeline/ml-pipeline-gcp''"

definition confusion_matrix_rx :: "(char \<Rightarrow> bool) \<Rightarrow> rx" where
  "confusion_matrix_rx wd =
     Seq (Str (confusion_matrix_name @ '':'')) (Plus (Alt (Plus (Cls wd)) (Cls dot_or_hyphen)))"

definition roc_rx :: "(char \<Rightarrow> bool) \<Rightarrow> rx" where
  "roc_rx wd = Seq (Str (roc_name @ '':'')) (Plus (Alt (Plus (Cls wd)) (Cls dot_or_hyphen)))"

definition gcp_rx :: "(char \<Rightarrow> bool) \<Rightarrow> rx" where
  "gcp_rx wd = Seq (Str (gcp_name @ '':'')) (Plus (Alt (Cls wd) (Cls dot_or_hyphen)))"

text \<open>
  Modelled from the spec: what \<open>utils.file_injection\<close> (a helper of the repository that is
  not part of the sources) does to the text of a file. The spec has it substitute image
  references "using a fixed set of regex-to-replacement mappings": every mapping is
  applied, in the order of the dict, each as one \<open>re.sub\<close>.
\<close>

definition substitute :: "(rx \<times> string) list \<Rightarrow> string \<Rightarrow> string" where
  "substitute subs s = fold (\<lambda>(r, new) t. re_sub r new t) subs s"

text \<open>
  Modelled from the spec: \<open>utils.file_injection(file_in, file_out, subs)\<close>, which is not part
  of the sources. The text of \<open>file_in\<close> is read (an exception of opening it goes on), and
  the substituted text is written to \<open>file_out\<close>.
\<close>

definition file_injection ::
  "world \<Rightarrow> string \<Rightarrow> string \<Rightarrow> (rx \<times> string) list \<Rightarrow> ('s, unit) act" where
  "file_injection w file_in file_out subs =
     bnd (call (open_r w file_in)) (\<lambda>s. emit (WriteFile file_out (substitute subs s)))"

text \<open>
  Lines 244 to 264. \<open>subs\<close> is a dict whose keys are the patterns; the third pattern is a
  new key, so \<open>update\<close> appends it. The call of line 263 is made for every test name, after
  the one of line 258 for \<open>xgboost_training_cm\<close>.
\<close>

definition injection_subs :: "world \<Rightarrow> 'a component_test_scheme \<Rightarrow> (rx \<times> string) list" where
  "injection_subs w st =
     [(confusion_matrix_rx (re_word w), local_confusionmatrix_image st),
      (roc_rx (re_word w), local_roc_image st)]
     @ (if test_name st = Some ''xgboost_training_cm''
        then [(gcp_rx (re_word w), dataproc_gcp_image st)] else [])"

definition ComponentTest_injection :: "world \<Rightarrow> ('a component_test_scheme, unit) act" where
  "ComponentTest_injection w =
     bnd (getf id) (\<lambda>st.
     let subs = [(confusion_matrix_rx (re_word w), local_confusionmatrix_image st),
                 (roc_rx (re_word w), local_roc_image st)]
     in bnd (if test_name st = Some ''xgboost_training_cm'' then
               let subs = subs @ [(gcp_rx (re_word w), dataproc_gcp_image st)]
               in bnd (file_injection w (str_opt (test_name st) @ ''.py.yaml'')
                         (str_opt (test_name st) @ ''.py.yaml.tmp'') subs) (\<lambda>_.
                  ret subs)
             else ret subs) (\<lambda>subs.
        file_injection w (str_opt (test_name st) @ ''.py.yaml'')
          (str_opt (test_name st) @ ''.py.yaml.tmp'') subs))"

definition ComponentTest_run_test :: "world \<Rightarrow> (component_test, unit) act" where
  "ComponentTest_run_test = run_test ComponentTest_injection"

section \<open>The sample pipeline\<close>

text \<open>
  Modelled from the spec: the pipeline SDK (\<open>kfp.dsl\<close>) is not part of the sources. Calling
  a component or a pipeline inside a pipeline function adds a task to the pipeline under
  construction and returns it (here: its position); \<open>set_caching_options\<close> is the
  "pass-through configuration call" of the spec and records its argument on the task. A
  task on which it was never called has \<open>caching = None\<close>.
\<close>

datatype callee = Component string | Pipeline string

datatype argument = Output nat

record task =
  callee :: callee
  arguments :: "(string \<times> argument) list"
  caching :: "bool option"

text \<open>
  Modelled from the spec: calling a component or a pipeline of the SDK inside a pipeline
  function. The new task is the last of the pipeline and is not configured.
\<close>

definition new_task :: "callee \<Rightarrow> (string \<times> argument) list \<Rightarrow> (task list, nat) act" where
  "new_task c args =
     bnd (getf length) (\<lambda>i.
     bnd (setf (\<lambda>ts. ts @ [\<lparr>callee = c, arguments = args, caching = None\<rparr>])) (\<lambda>_.
     ret i))"

text \<open>
  Modelled from the spec: \<open>set_caching_options\<close> of the SDK, the "pass-through
  configuration call": the task keeps the flag it is given.
\<close>

definition set_caching_options :: "nat \<Rightarrow> bool \<Rightarrow> (task list, unit) act" where
  "set_caching_options t b = setf (\<lambda>ts. ts[t := (ts ! t)\<lparr>caching := Some b\<rparr>])"

text \<open>\<open>subdag.py\<close>, lines 15 to 25.\<close>

definition inner_pipeline :: "(task list, argument) act" where
  "inner_pipeline =
     bnd (new_task (Component ''inner_comp'') []) (\<lambda>inner_comp_task.
     bnd (set_caching_options inner_comp_task False) (\<lambda>_.
     ret (Output inner_comp_task)))"

definition outer_pipeline :: "(task list, unit) act" where
  "outer_pipeline =
     bnd (new_task (Pipeline ''inner_pipeline'') []) (\<lambda>inner_pipeline_task.
     bnd (new_task (Component ''outer_comp'') [(''input'', Output inner_pipeline_task)])
       (\<lambda>outer_comp_task.
     set_caching_options outer_comp_task False))"

text \<open>The tasks a pipeline function builds, starting from an empty pipeline.\<close>

definition tasks_of :: "(task list, 'a) act \<Rightarrow> task list" where
  "tasks_of p = fst (p [])"

section \<open>Properties of statements and of events\<close>

text \<open>\<open>keeps g m\<close>: the statement \<open>m\<close> leaves the attribute \<open>g\<close> as it found it, also when it raises.\<close>

definition keeps :: "('s \<Rightarrow> 'a) \<Rightarrow> ('s, 'b) act \<Rightarrow> bool" where
  "keeps g m = (\<forall>s. g (fst (m s)) = g s)"

text \<open>\<open>emits P m\<close>: every event \<open>m\<close> causes satisfies \<open>P\<close>.\<close>

definition emits :: "(event \<Rightarrow> bool) \<Rightarrow> ('s, 'b) act \<Rightarrow> bool" where
  "emits P m = (\<forall>s. list_all P (fst (snd (m s))))"

text \<open>
  Two runs that end in the same state, and either raise the same exception or both return
  (possibly different values).
\<close>

definition same_but_value ::
  "'s \<times> event list \<times> (exn + 'a) \<Rightarrow> 's \<times> event list \<times> (exn + 'a) \<Rightarrow> bool" where
  "same_but_value a b =
     (fst a = fst b \<and>
      (case snd (snd b) of
         Inl e \<Rightarrow> snd (snd a) = Inl e
       | Inr _ \<Rightarrow> (case snd (snd a) of Inl _ \<Rightarrow> False | Inr _ \<Rightarrow> True)))"

text \<open>The compiler subprocess, the events of the run phase, and the writing of a file.\<close>

fun is_compiler_call :: "event \<Rightarrow> bool" where
  "is_compiler_call (Subprocess args res) = (take 3 args = [''kfp'', ''dsl'', ''compile''])"
| "is_compiler_call _ = False"

fun is_run_phase :: "event \<Rightarrow> bool" where
  "is_run_phase (SetEnv _ _) = True"
| "is_run_phase (Chdir _) = True"
| "is_run_phase (NoteBookChecker _ _) = True"
| "is_run_phase (PySampleChecker _ _) = True"
| "is_run_phase _ = False"

fun is_write :: "event \<Rightarrow> bool" where
  "is_write (WriteFile _ _) = True"
| "is_write _ = False"

text \<open>
  A fully-qualified image reference: the image name, a colon, and a tag that is not empty
  and made of word characters, dots and hyphens. \<open>image_reference\<close> is such a reference
  to one of the three images the patterns name.
\<close>

definition image_ref :: "(char \<Rightarrow> bool) \<Rightarrow> string \<Rightarrow> string \<Rightarrow> bool" where
  "image_ref wd name m =
     (prefix (name @ '':'') m \<and> drop (length name + 1) m \<noteq> [] \<and>
      list_all (\<lambda>c. wd c \<or> c = CHR ''.'' \<or> c = CHR ''-'') (drop (length name + 1) m))"

definition image_reference :: "(char \<Rightarrow> bool) \<Rightarrow> string \<Rightarrow> bool" where
  "image_reference wd m =
     (image_ref wd confusion_matrix_name m \<or> image_ref wd roc_name m \<or> image_ref wd gcp_name m)"

section \<open>Concrete worlds and tests\<close>

text \<open>
  A machine on which everything works: the default configuration exists and validates,
  there is a script \<open>/s/a.py\<close> and a notebook \<open>/s/b.ipynb\<close> without a configuration of its
  own, and every subprocess exits with 0.
\<close>

definition ascii_word :: "char \<Rightarrow> bool" where
  "ascii_word c = (c \<in> set ''abcdefghijklmnopqrstuvwxyzABCDEFGHIJKLMNOPQRSTUVWXYZ0123456789_'')"

definition demo_world :: world where
  "demo_world =
     \<lparr>CONFIG_DIR = ''/c'', DEFAULT_CONFIG = ''/c/default.config.yaml'',
      SCHEMA_CONFIG = ''/c/schema.config.yaml'', SAMPLE_TEST_DIR = ''/t'',
      isfile = (\<lambda>p. p = ''/s/a.py'' \<or> p = ''/s/b.ipynb''),
      make_schema = (\<lambda>p. Inr (Schema p)),
      open_r = (\<lambda>p. if p = ''/c/default.config.yaml'' then Inr ''run_pipeline: true''
                     else if p = ''xgboost_training_cm.py.yaml''
                     then Inr ''image: gcr.io/ml-pipeline/ml-pipeline-gcp:1.0.0-rc.3 # x''
                     else Inl (Exn OSError ''No such file'' None)),
      safe_load = (\<lambda>t. if t = ''run_pipeline: true''
                        then Inr (YDict [(''run_pipeline'', YBool True)])
                        else Inl (Exn YAMLError ''bad yaml'' None)),
      make_data = (\<lambda>p. Inr (YData p)),
      validate = (\<lambda>s d. None),
      execute_notebook = (\<lambda>i out ps. None),
      subprocess_call = (\<lambda>args. Inr 0),
      named_temporary_file = Inr ''/tmp/x.yaml'',
      load_incluster_config = None,
      load_kube_config = None,
      chdir = (\<lambda>d. None),
      notebook_checker_call = (\<lambda>a c. None),
      pysample_checker_call = (\<lambda>a c. None),
      re_word = ascii_word\<rparr>"

text \<open>The notebook has a configuration that parses but fails the schema.\<close>

definition invalid_config_world :: world where
  "invalid_config_world =
     demo_world
       \<lparr>open_r := (\<lambda>p. if p = ''/c/default.config.yaml'' \<or> p = ''/c/b.config.yaml''
                       then Inr ''run_pipeline: true''
                       else Inl (Exn OSError ''No such file'' None)),
        validate := (\<lambda>s d. if d = YData ''/c/b.config.yaml''
                            then Some (Exn ValueError ''schema'' None) else None)\<rparr>"

text \<open>The notebook has a configuration that does not parse.\<close>

definition broken_yaml_world :: world where
  "broken_yaml_world =
     demo_world
       \<lparr>open_r := (\<lambda>p. if p = ''/c/default.config.yaml'' then Inr ''run_pipeline: true''
                       else Inr ''['')\<rparr>"

text \<open>Sample-test objects as \<open>SampleTest.__init__\<close> leaves them.\<close>

definition script_test :: sample_test where
  "script_test =
     \<lparr>test_name = None, test_path = ''/s/a.py'', compiled_path = None,
      results_gcs_dir = ''gs://r'', func = None, target_image_prefix = [],
      namespace = ''kubeflow'', host = ''http://h'', is_notebook = None,
      sample_test_result = ''junit_SampleNoneOutput.xml'', sample_test_output = ''gs://r'',
      run_pipeline = None\<rparr>"

definition notebook_test :: sample_test where
  "notebook_test = script_test\<lparr>test_path := ''/s/b.ipynb''\<rparr>"

definition txt_test :: sample_test where
  "txt_test = script_test\<lparr>test_path := ''/s/c.txt''\<rparr>"

text \<open>
  Component-test objects. No run of the launcher builds one (\<open>ComponentTest.__init__\<close>
  raises, see \<open>ComponentTest_init\<close>); these two are written down by hand, to look at the
  methods of the class by themselves. \<open>xgboost_test\<close> carries the test name
  \<open>xgboost_training_cm\<close>; \<open>component_script_test\<close> is the script test above with the three
  images added.
\<close>

definition xgboost_test :: component_test where
  "xgboost_test =
     sample_test.extend (script_test\<lparr>test_name := Some ''xgboost_training_cm''\<rparr>)
       \<lparr>local_confusionmatrix_image = ''cm-img'', local_roc_image = ''roc-img'',
        dataproc_gcp_image = ''gcp-img''\<rparr>"

definition component_script_test :: component_test where
  "component_script_test =
     sample_test.extend script_test
       \<lparr>local_confusionmatrix_image = ''cm-img'', local_roc_image = ''roc-img'',
        dataproc_gcp_image = ''gcp-img''\<rparr>"

text \<open>
  \<open>demo_world\<close> with one more file in the working directory, \<open>a.py.yaml\<close>, which names the
  local ROC image.
\<close>

definition yaml_beside_world :: world where
  "yaml_beside_world =
     demo_world
       \<lparr>open_r := (\<lambda>p. if p = ''/c/default.config.yaml'' then Inr ''run_pipeline: true''
                       else if p = ''a.py.yaml''
                       then Inr ''image: gcr.io/ml-pipeline/ml-pipeline/ml-pipeline-local-roc:1.0 # x''
                       else Inl (Exn OSError ''No such file'' None))\<rparr>"

section \<open>Laws of statements\<close>

lemmas act_defs = bnd_def ret_def raise_def emit_def getf_def setf_def call_def call_unit_def
  assert_that_def try_except_def subprocess_def

lemma bnd_emit:
  "bnd (emit ev) f s = (case f () s of (s2, t2, r) \<Rightarrow> (s2, ev # t2, r))"
  by (simp add: bnd_def emit_def split: prod.splits)

lemma keeps_ret [simp]: "keeps g (ret x)"
  by (simp add: keeps_def ret_def)

lemma keeps_raise [simp]: "keeps g (raise e)"
  by (simp add: keeps_def raise_def)

lemma keeps_call [simp]: "keeps g (call r)"
  by (simp add: keeps_def call_def)

lemma keeps_call_unit [simp]: "keeps g (call_unit r)"
  by (simp add: keeps_def call_unit_def)

lemma keeps_emit [simp]: "keeps g (emit ev)"
  by (simp add: keeps_def emit_def)

lemma keeps_getf [simp]: "keeps g (getf h)"
  by (simp add: keeps_def getf_def)

lemma keeps_assert [simp]: "keeps g (assert_that c m)"
  by (simp add: assert_that_def)

lemma keeps_setf: "(\<And>s. g (f s) = g s) \<Longrightarrow> keeps g (setf f)"
  by (simp add: keeps_def setf_def)

lemma keeps_bnd: "keeps g m \<Longrightarrow> (\<And>x. keeps g (f x)) \<Longrightarrow> keeps g (bnd m f)"
  unfolding keeps_def bnd_def
  by (auto split: prod.splits sum.splits) (metis fst_conv)+

lemma keeps_try:
  "keeps g b \<Longrightarrow> (\<And>e h. hs e = Some h \<Longrightarrow> keeps g h) \<Longrightarrow> (\<And>x. keeps g (f x))
     \<Longrightarrow> keeps g (try_except b hs f)"
  unfolding keeps_def try_except_def
  by (auto split: prod.splits sum.splits option.splits) (metis fst_conv)+

lemma keeps_subprocess [simp]: "keeps g (subprocess w args)"
  by (simp add: subprocess_def keeps_bnd bnd_emit)

lemmas keeps_intros = keeps_bnd keeps_try keeps_setf

lemma keeps_after: "(\<And>x. keeps g (f x)) \<Longrightarrow> g (fst (bnd m f s)) = g (fst (m s))"
  unfolding keeps_def bnd_def
  by (auto split: prod.splits sum.splits) (metis fst_conv)

lemma emits_ret [simp]: "emits P (ret x)"
  by (simp add: emits_def ret_def)

lemma emits_raise [simp]: "emits P (raise e)"
  by (simp add: emits_def raise_def)

lemma emits_call [simp]: "emits P (call r)"
  by (simp add: emits_def call_def)

lemma emits_call_unit [simp]: "emits P (call_unit r)"
  by (simp add: emits_def call_unit_def)

lemma emits_getf [simp]: "emits P (getf h)"
  by (simp add: emits_def getf_def)

lemma emits_setf [simp]: "emits P (setf h)"
  by (simp add: emits_def setf_def)

lemma emits_assert [simp]: "emits P (assert_that c m)"
  by (simp add: assert_that_def)

lemma emits_emit: "P ev \<Longrightarrow> emits P (emit ev)"
  by (simp add: emits_def emit_def)

lemma emits_bnd: "emits P m \<Longrightarrow> (\<And>x. emits P (f x)) \<Longrightarrow> emits P (bnd m f)"
  unfolding emits_def bnd_def
  by (auto split: prod.splits sum.splits) (metis fst_conv snd_conv)+

lemma emits_try:
  "emits P b \<Longrightarrow> (\<And>e h. hs e = Some h \<Longrightarrow> emits P h) \<Longrightarrow> (\<And>x. emits P (f x))
     \<Longrightarrow> emits P (try_except b hs f)"
  unfolding emits_def try_except_def
  by (auto split: prod.splits sum.splits option.splits) (metis fst_conv snd_conv)+

lemma emits_subprocess:
  "P (Subprocess args (subprocess_call w args)) \<Longrightarrow> emits P (subprocess w args)"
  by (simp add: subprocess_def emits_bnd emits_emit)

lemmas emits_intros = emits_bnd emits_try emits_emit emits_subprocess

section \<open>The stages of \<open>_compile\<close>, case by case\<close>

lemma compile_kind_cases:
  "compile_kind w s =
     (if \<not> isfile w (test_path s) then
        (s, [], Inl (Exn AssertionError
           (''Specified test path is not a valid file: '' @ test_path s) None))
      else case os_path_splitext (snd (os_path_split (test_path s))) of (name, ext) \<Rightarrow>
        if ext = ''.py'' then (s\<lparr>test_name := Some name, is_notebook := Some False\<rparr>, [], Inr ())
        else if ext = ''.ipynb'' then
          (s\<lparr>test_name := Some name, is_notebook := Some True\<rparr>, [], Inr ())
        else (s\<lparr>test_name := Some name\<rparr>, [],
              Inl (Exn RuntimeError
                (''Unrecognized test path file extension: '' @ [CHR 0x27] @ ext @ [CHR 0x27])
                None)))"
  by (simp add: compile_kind_def act_defs split: prod.splits)

lemma default_config_cases:
  "default_config w sch s =
     (case load_config w sch (DEFAULT_CONFIG w) of
        Inl err \<Rightarrow>
          (s, [],
           Inl (if isinstance err YAMLError then
                  Exn RuntimeError (''Illegal default config:'' @ msg err) None
                else if isinstance err OSError then
                  Exn FileExistsError (''Default config not found:'' @ msg err) None
                else err))
      | Inr raw \<Rightarrow>
          (case subscript raw ''run_pipeline'' of
             Inl e \<Rightarrow> (s, [], Inl e)
           | Inr v \<Rightarrow> (s\<lparr>run_pipeline := Some v\<rparr>, [], Inr ())))"
  by (simp add: default_config_def act_defs split: sum.splits)

lemma test_config_failure:
  assumes "test_name s = Some name"
    and "load_config w sch (os_path_join (CONFIG_DIR w) (name @ ''.config.yaml'')) = Inl err"
  shows "test_config w sch s =
     (if isinstance err YAMLError then
        (s, [Print (''No legit yaml config file found, use default args:'' @ msg err)], Inr [])
      else if isinstance err OSError then
        (s, [Print (''Config file with the same name not found, use default args:'' @ msg err)],
         Inr [])
      else (s, [], Inl err))"
  using assms
  by (simp add: test_config_def act_defs str_opt_def)

lemma compile_notebook_cases:
  "compile_notebook w sch s =
     (case test_config w sch s of
        (s1, t1, Inl e) \<Rightarrow> (s1, t1, Inl e)
      | (s1, t1, Inr nb_params) \<Rightarrow>
          (case execute_notebook w (test_path s1) (test_path s1) nb_params of
             Some e \<Rightarrow>
               (s1, t1 @ [ExecuteNotebook (test_path s1) (test_path s1) nb_params], Inl e)
           | None \<Rightarrow>
               (s1,
                t1 @ [ExecuteNotebook (test_path s1) (test_path s1) nb_params,
                      Subprocess (nbconvert_args (test_path s1))
                        (subprocess_call w (nbconvert_args (test_path s1)))],
                subprocess_call w (nbconvert_args (test_path s1)))))"
  by (simp add: compile_notebook_def act_defs split: prod.splits sum.splits option.splits)

lemma compile_pipeline_cases:
  "compile_pipeline w rc0 s =
     (case named_temporary_file w of
        Inl e \<Rightarrow> (s, [], Inl e)
      | Inr f \<Rightarrow>
          (s\<lparr>compiled_path := Some f\<rparr>,
           [CreateTempFile f,
            Subprocess (compile_args (test_path s) f (func s))
              (subprocess_call w (compile_args (test_path s) f (func s)))],
           case subprocess_call w (compile_args (test_path s) f (func s)) of
             Inl e \<Rightarrow> Inl e
           | Inr rc \<Rightarrow> if rc = 0 then Inr () else Inl (Exn AssertionError [] None)))"
  by (simp add: compile_pipeline_def act_defs split: sum.splits)

lemma compile_notebook_stage:
  assumes "isfile w (test_path st)"
    and "os_path_splitext (snd (os_path_split (test_path st))) = (name, ''.ipynb'')"
    and "make_schema w (SCHEMA_CONFIG w) = Inr sch"
    and "load_config w sch (DEFAULT_CONFIG w) = Inr raw"
    and "subscript raw ''run_pipeline'' = Inr rp"
  shows "compile w st =
     bnd (bnd (compile_notebook w sch) (\<lambda>return_code. ret (Some return_code)))
       (compile_pipeline w)
       (st\<lparr>test_name := Some name, is_notebook := Some True, run_pipeline := Some rp\<rparr>)"
  using assms
  by (simp add: compile_def compile_prepare_def bnd_def compile_kind_cases call_def
      default_config_cases getf_def split: prod.splits sum.splits)

section \<open>What the stages keep and what they emit\<close>

lemma default_config_keeps:
  "(\<And>s v. g (s\<lparr>run_pipeline := v\<rparr>) = g s) \<Longrightarrow> keeps g (default_config w sch)"
  by (simp add: keeps_def default_config_cases split: sum.splits)

lemma test_config_keeps:
  "(\<And>s v. g (s\<lparr>run_pipeline := v\<rparr>) = g s) \<Longrightarrow> keeps g (test_config w sch)"
  unfolding test_config_def
  by (auto intro!: keeps_intros split: if_splits)

lemma compile_notebook_keeps:
  "(\<And>s v. g (s\<lparr>run_pipeline := v\<rparr>) = g s) \<Longrightarrow> keeps g (compile_notebook w sch)"
  unfolding compile_notebook_def
  by (auto intro!: keeps_intros test_config_keeps)

lemma compile_pipeline_keeps:
  "(\<And>s v. g (s\<lparr>compiled_path := v\<rparr>) = g s) \<Longrightarrow> keeps g (compile_pipeline w rc)"
  by (simp add: keeps_def compile_pipeline_cases split: sum.splits)

lemma compile_after_kind:
  assumes "\<And>s v. g (s\<lparr>run_pipeline := v\<rparr>) = g s"
    and "\<And>s v. g (s\<lparr>compiled_path := v\<rparr>) = g s"
  shows "g (fst (compile w st)) = g (fst (compile_kind w st))"
proof -
  have "g (fst (compile w st)) = g (fst (compile_prepare w st))"
    unfolding compile_def
    by (rule keeps_after) (rule compile_pipeline_keeps, rule assms(2))
  also have "\<dots> = g (fst (compile_kind w st))"
    unfolding compile_prepare_def
    by (rule keeps_after)
       (auto intro!: keeps_intros default_config_keeps compile_notebook_keeps assms(1))
  finally show ?thesis .
qed

lemma compile_keeps_result: "keeps sample_test_result (compile w)"
proof -
  have "sample_test_result (fst (compile w s)) = sample_test_result s" for s :: "'a sample_test_scheme"
  proof -
    have "sample_test_result (fst (compile w s)) = sample_test_result (fst (compile_kind w s))"
      by (rule compile_after_kind) simp_all
    also have "\<dots> = sample_test_result s"
      by (simp add: compile_kind_cases split: prod.splits)
    finally show ?thesis .
  qed
  then show ?thesis
    by (simp add: keeps_def)
qed

lemma run_checkers_keeps_result: "keeps sample_test_result (run_checkers w)"
  unfolding run_checkers_def checker_nb_def checker_py_def change_dir_def Let_def
  by (auto intro!: keeps_intros split: option.splits prod.splits)

lemma run_test_keeps_result: "keeps sample_test_result (run_test SampleTest_injection w)"
  unfolding run_test_def SampleTest_injection_def
  by (intro keeps_bnd compile_keeps_result keeps_ret run_checkers_keeps_result)

lemma test_config_test_path:
  "test_config w sch s = (s1, t1, r) \<Longrightarrow> test_path s1 = test_path s"
  using test_config_keeps[of test_path w sch]
  by (auto simp: keeps_def dest!: spec[of _ s])

lemma compile_prepare_emits:
  assumes "\<And>s. P (Print s)" and "\<And>a b c. P (ExecuteNotebook a b c)"
    and "\<And>p r. P (Subprocess (nbconvert_args p) r)"
  shows "emits P (compile_prepare w)"
  unfolding compile_prepare_def compile_kind_def default_config_def compile_notebook_def
    test_config_def
  by (auto intro!: emits_intros assms split: prod.splits if_splits)

lemma compile_pipeline_emits:
  assumes "\<And>f. P (CreateTempFile f)" and "\<And>a r. P (Subprocess a r)"
  shows "emits P (compile_pipeline w rc)"
  unfolding compile_pipeline_def
  by (auto intro!: emits_intros assms)

lemma compile_emits:
  assumes "\<And>s. P (Print s)" and "\<And>a b c. P (ExecuteNotebook a b c)"
    and "\<And>f. P (CreateTempFile f)" and "\<And>a r. P (Subprocess a r)"
  shows "emits P (compile w)"
  unfolding compile_def
  by (intro emits_bnd compile_prepare_emits compile_pipeline_emits assms)

lemma run_checkers_emits:
  assumes "\<And>a b. P (SetEnv a b)" and "\<And>d. P (Chdir d)"
    and "\<And>a c. P (NoteBookChecker a c)" and "\<And>a c. P (PySampleChecker a c)"
  shows "emits P (run_checkers w)"
  unfolding run_checkers_def checker_nb_def checker_py_def change_dir_def Let_def
  by (auto intro!: emits_intros assms split: option.splits prod.splits)

lemma compile_no_run_phase: "emits (\<lambda>ev. \<not> is_run_phase ev) (compile w)"
  by (rule compile_emits) simp_all

lemma run_test_no_write: "emits (\<lambda>ev. \<not> is_write ev) (SampleTest_run_test w)"
  unfolding SampleTest_run_test_def run_test_def SampleTest_injection_def
  by (intro emits_bnd compile_emits run_checkers_emits emits_ret) simp_all

section \<open>Concrete runs\<close>

lemma splitext_script: "os_path_splitext (snd (os_path_split ''/s/a.py'')) = (''a'', ''.py'')"
  by code_simp

lemma splitext_notebook: "os_path_splitext (snd (os_path_split ''/s/b.ipynb'')) = (''b'', ''.ipynb'')"
  by code_simp

lemma splitext_txt: "os_path_splitext (snd (os_path_split ''/s/c.txt'')) = (''c'', ''.txt'')"
  by code_simp

lemma compile_script:
  "compile demo_world script_test =
     (script_test\<lparr>test_name := Some ''a'', is_notebook := Some False,
        run_pipeline := Some (YBool True), compiled_path := Some ''/tmp/x.yaml''\<rparr>,
      [CreateTempFile ''/tmp/x.yaml'',
       Subprocess [''kfp'', ''dsl'', ''compile'', ''--py'', ''/s/a.py'', ''--output'',
                   ''/tmp/x.yaml''] (Inr 0)],
      Inr ())"
  by code_simp

lemma compile_notebook_run:
  "compile demo_world notebook_test =
     (notebook_test\<lparr>test_name := Some ''b'', is_notebook := Some True,
        run_pipeline := Some (YBool True), compiled_path := Some ''/tmp/x.yaml''\<rparr>,
      [Print ''Config file with the same name not found, use default args:No such file'',
       ExecuteNotebook ''/s/b.ipynb'' ''/s/b.ipynb'' [],
       Subprocess [''jupyter'', ''nbconvert'', ''--to'', ''python'', ''/s/b.ipynb''] (Inr 0),
       CreateTempFile ''/tmp/x.yaml'',
       Subprocess [''kfp'', ''dsl'', ''compile'', ''--py'', ''/s/b.ipynb'', ''--output'',
                   ''/tmp/x.yaml''] (Inr 0)],
      Inr ())"
  by code_simp

section \<open>Resolving the host\<close>

text \<open>
  Claim C6. A \<open>SampleTest\<close> built with a non-empty host keeps it and loads no credentials.
  Built with an empty host, it tries the in-cluster configuration, then (only if that
  raised) the kube-config, each once, and on success the host is \<open>http://localhost:8888\<close>;
  if both raise, the constructor raises \<open>RuntimeError\<close> (caused by the second exception)
  and nothing is tried again.
\<close>

theorem init_host:
  "(h \<noteq> [] \<longrightarrow>
      (\<exists>st. SampleTest_init w p d fn h tip ns =
         ([Print (''KFP API healthz endpoint is: '' @ h @ ''/apis/v1beta1/healthz'')], Inr st)
         \<and> host st = h)) \<and>
   (h = [] \<and> load_incluster_config w = None \<longrightarrow>
      (\<exists>st. SampleTest_init w p d fn h tip ns =
         ([LoadInclusterConfig,
           Print ''KFP API healthz endpoint is: http://localhost:8888/apis/v1beta1/healthz''],
          Inr st)
         \<and> host st = ''http://localhost:8888'')) \<and>
   (h = [] \<and> load_incluster_config w = Some e1 \<and> load_kube_config w = None \<longrightarrow>
      (\<exists>st. SampleTest_init w p d fn h tip ns =
         ([LoadInclusterConfig, LoadKubeConfig,
           Print ''KFP API healthz endpoint is: http://localhost:8888/apis/v1beta1/healthz''],
          Inr st)
         \<and> host st = ''http://localhost:8888'')) \<and>
   (h = [] \<and> load_incluster_config w = Some e1 \<and> load_kube_config w = Some e2 \<longrightarrow>
      SampleTest_init w p d fn h tip ns =
        ([LoadInclusterConfig, LoadKubeConfig],
         Inl (Exn RuntimeError ''Failed to get inverse proxy hostname'' (Some e2))))"
  by (simp add: SampleTest_init_def init_body_def discover_host_def load_config_either_def
      act_defs str_opt_def)

theorem init_host_witness:
  "(\<exists>st. SampleTest_init demo_world ''/s/a.py'' ''gs://r'' None ''http://h'' [] ''kubeflow'' =
      ([Print ''KFP API healthz endpoint is: http://h/apis/v1beta1/healthz''], Inr st)
      \<and> host st = ''http://h'') \<and>
   (\<exists>st. SampleTest_init demo_world ''/s/a.py'' ''gs://r'' None [] [] ''kubeflow'' =
      ([LoadInclusterConfig,
        Print ''KFP API healthz endpoint is: http://localhost:8888/apis/v1beta1/healthz''],
       Inr st)
      \<and> host st = ''http://localhost:8888'') \<and>
   (\<exists>st. SampleTest_init
           (demo_world\<lparr>load_incluster_config := Some (Exn OtherError ''no cluster'' None)\<rparr>)
           ''/s/a.py'' ''gs://r'' None [] [] ''kubeflow'' =
      ([LoadInclusterConfig, LoadKubeConfig,
        Print ''KFP API healthz endpoint is: http://localhost:8888/apis/v1beta1/healthz''],
       Inr st)
      \<and> host st = ''http://localhost:8888'') \<and>
   SampleTest_init
     (demo_world\<lparr>load_incluster_config := Some (Exn OtherError ''no cluster'' None),
                  load_kube_config := Some (Exn OtherError ''no kube-config'' None)\<rparr>)
     ''/s/a.py'' ''gs://r'' None [] [] ''kubeflow'' =
     ([LoadInclusterConfig, LoadKubeConfig],
      Inl (Exn RuntimeError ''Failed to get inverse proxy hostname''
             (Some (Exn OtherError ''no kube-config'' None))))"
  using init_host[of "''http://h''" demo_world "''/s/a.py''" "''gs://r''" None "[]" "''kubeflow''"]
    init_host[of "[]" demo_world "''/s/a.py''" "''gs://r''" None "[]" "''kubeflow''"]
    init_host[of "[]"
      "demo_world\<lparr>load_incluster_config := Some (Exn OtherError ''no cluster'' None)\<rparr>"
      "''/s/a.py''" "''gs://r''" None "[]" "''kubeflow''" "Exn OtherError ''no cluster'' None"]
    init_host[of "[]"
      "demo_world\<lparr>load_incluster_config := Some (Exn OtherError ''no cluster'' None),
                   load_kube_config := Some (Exn OtherError ''no kube-config'' None)\<rparr>"
      "''/s/a.py''" "''gs://r''" None "[]" "''kubeflow''" "Exn OtherError ''no cluster'' None"
      "Exn OtherError ''no kube-config'' None"]
  by (simp add: demo_world_def)

section \<open>The name of the junit file\<close>

text \<open>
  Claim C10. \<open>__init__\<close> computes the junit file name while the test name is still \<open>None\<close>:
  on every object it builds, whatever the arguments, the name is
  \<open>junit_SampleNoneOutput.xml\<close>, and it is still that after \<open>_compile\<close> (which assigns the
  test name) and after \<open>run_test\<close>, in any world and whether they raise or not.
\<close>

theorem junit_name:
  assumes "SampleTest_init w p d fn h tip ns = (tr, Inr st)"
  shows "test_name st = None \<and>
         sample_test_result st = ''junit_SampleNoneOutput.xml'' \<and>
         sample_test_result (fst (compile w' st)) = ''junit_SampleNoneOutput.xml'' \<and>
         sample_test_result (fst (SampleTest_run_test w' st)) = ''junit_SampleNoneOutput.xml''"
proof -
  from assms have n: "test_name st = None"
    and r: "sample_test_result st = ''junit_SampleNoneOutput.xml''"
    by (auto simp: SampleTest_init_def init_body_def discover_host_def load_config_either_def
        act_defs str_opt_def split: if_splits option.splits)
  from r have c: "sample_test_result (fst (compile w' st)) = ''junit_SampleNoneOutput.xml''"
    by (simp add: compile_keeps_result[unfolded keeps_def])
  from r have "sample_test_result (fst (SampleTest_run_test w' st)) = ''junit_SampleNoneOutput.xml''"
    by (simp add: run_test_keeps_result[unfolded keeps_def] SampleTest_run_test_def)
  with n r c show ?thesis
    by simp
qed

theorem junit_name_witness:
  "SampleTest_init demo_world ''/s/a.py'' ''gs://r'' None ''http://h'' [] ''kubeflow'' =
     ([Print ''KFP API healthz endpoint is: http://h/apis/v1beta1/healthz''], Inr script_test) \<and>
   test_name script_test = None \<and>
   sample_test_result script_test = ''junit_SampleNoneOutput.xml'' \<and>
   test_name (fst (compile demo_world script_test)) = Some ''a'' \<and>
   sample_test_result (fst (compile demo_world script_test)) = ''junit_SampleNoneOutput.xml'' \<and>
   sample_test_result (fst (SampleTest_run_test demo_world script_test))
     = ''junit_SampleNoneOutput.xml''"
proof -
  have i: "SampleTest_init demo_world ''/s/a.py'' ''gs://r'' None ''http://h'' [] ''kubeflow'' =
     ([Print ''KFP API healthz endpoint is: http://h/apis/v1beta1/healthz''], Inr script_test)"
    by code_simp
  from junit_name[OF i, of demo_world] i show ?thesis
    by (simp add: compile_script)
qed

section \<open>The kind of a test\<close>

text \<open>
  Claim C3, amended. For every test path that names an existing file, \<open>_compile\<close> makes
  the test a script test (\<open>is_notebook = False\<close>) when the extension of the file name is
  \<open>.py\<close>, a notebook test (\<open>is_notebook = True\<close>) when it is \<open>.ipynb\<close>, and otherwise raises
  \<open>RuntimeError\<close> with the message \<open>Unrecognized test path file extension: '<ext>'\<close>, having
  done nothing else; in each case the test name is the file name without its extension. (A
  path that does not name a file fails the assertion of line 89 before its extension is
  looked at.)
\<close>

theorem extension_kind:
  assumes "isfile w (test_path st)"
    and "os_path_splitext (snd (os_path_split (test_path st))) = (name, ext)"
  shows "(ext = ''.py'' \<longrightarrow>
            is_notebook (fst (compile w st)) = Some False \<and>
            test_name (fst (compile w st)) = Some name) \<and>
         (ext = ''.ipynb'' \<longrightarrow>
            is_notebook (fst (compile w st)) = Some True \<and>
            test_name (fst (compile w st)) = Some name) \<and>
         (ext \<noteq> ''.py'' \<and> ext \<noteq> ''.ipynb'' \<longrightarrow>
            compile w st =
              (st\<lparr>test_name := Some name\<rparr>, [],
               Inl (Exn RuntimeError
                 (''Unrecognized test path file extension: '' @ [CHR 0x27] @ ext @ [CHR 0x27])
                 None)))"
proof -
  have n: "is_notebook (fst (compile w st)) = is_notebook (fst (compile_kind w st))"
    by (rule compile_after_kind) simp_all
  have t: "test_name (fst (compile w st)) = test_name (fst (compile_kind w st))"
    by (rule compile_after_kind) simp_all
  have other: "compile w st = compile_kind w st"
    if "ext \<noteq> ''.py''" "ext \<noteq> ''.ipynb''"
    using that assms
    by (simp add: compile_def compile_prepare_def bnd_def compile_kind_cases)
  from assms n t other show ?thesis
    by (simp add: compile_kind_cases)
qed

theorem extension_kind_witness:
  "is_notebook (fst (compile demo_world script_test)) = Some False \<and>
   test_name (fst (compile demo_world script_test)) = Some ''a'' \<and>
   is_notebook (fst (compile demo_world notebook_test)) = Some True \<and>
   test_name (fst (compile demo_world notebook_test)) = Some ''b'' \<and>
   compile (demo_world\<lparr>isfile := \<lambda>p. True\<rparr>) txt_test =
     (txt_test\<lparr>test_name := Some ''c''\<rparr>, [],
      Inl (Exn RuntimeError
        (''Unrecognized test path file extension: '' @ [CHR 0x27] @ ''.txt'' @ [CHR 0x27]) None))"
proof -
  have a: "isfile demo_world (test_path script_test)"
    and b: "isfile demo_world (test_path notebook_test)"
    and c: "isfile (demo_world\<lparr>isfile := \<lambda>p. True\<rparr>) (test_path txt_test)"
    by (simp_all add: demo_world_def script_test_def notebook_test_def)
  have a': "os_path_splitext (snd (os_path_split (test_path script_test))) = (''a'', ''.py'')"
    and b': "os_path_splitext (snd (os_path_split (test_path notebook_test))) = (''b'', ''.ipynb'')"
    and c': "os_path_splitext (snd (os_path_split (test_path txt_test))) = (''c'', ''.txt'')"
    by (simp_all add: script_test_def notebook_test_def txt_test_def splitext_script
        splitext_notebook splitext_txt)
  from extension_kind[OF a a'] extension_kind[OF b b'] extension_kind[OF c c']
  show ?thesis
    by simp
qed

text \<open>
  The claim as it was stated, for every test path, fails on a path that is not a file:
  \<open>/s/c.txt\<close> has the extension \<open>.txt\<close>, and \<open>_compile\<close> raises \<open>AssertionError\<close>, not
  \<open>RuntimeError\<close>.
\<close>

theorem missing_file_counterexample:
  "\<not> isfile demo_world (test_path txt_test) \<and>
   os_path_splitext (snd (os_path_split (test_path txt_test))) = (''c'', ''.txt'') \<and>
   compile demo_world txt_test =
     (txt_test, [],
      Inl (Exn AssertionError ''Specified test path is not a valid file: /s/c.txt'' None))"
  by (simp add: compile_def compile_prepare_def bnd_def compile_kind_cases demo_world_def
      txt_test_def script_test_def splitext_txt)

section \<open>The default configuration\<close>

text \<open>
  Claim C4. If loading or validating the default configuration fails (the file cannot be
  opened or parsed, or it fails the schema), \<open>_compile\<close> raises and has caused no event at
  all: the notebook was not executed or converted and the compiler was not started. The
  same holds for \<open>run_test\<close>, whatever \<open>_injection\<close> it would have used.
\<close>

theorem default_config_failure:
  assumes "make_schema w (SCHEMA_CONFIG w) = Inr sch"
    and "load_config w sch (DEFAULT_CONFIG w) = Inl err"
  shows "(\<exists>s' e. compile w st = (s', [], Inl e)) \<and>
         (\<exists>s' e. run_test injection w st = (s', [], Inl e))"
proof -
  have c: "\<exists>s' e. compile w st = (s', [], Inl e)"
    using assms
    by (simp add: compile_def compile_prepare_def bnd_def compile_kind_cases call_def
        default_config_cases split: prod.splits)
  then have "\<exists>s' e. run_test injection w st = (s', [], Inl e)"
    by (auto simp: run_test_def bnd_def)
  with c show ?thesis
    by simp
qed

theorem default_config_failure_witness:
  "load_config (demo_world\<lparr>open_r := \<lambda>p. Inl (Exn OSError ''No such file'' None)\<rparr>)
     (Schema ''/c/schema.config.yaml'') ''/c/default.config.yaml''
     = Inl (Exn OSError ''No such file'' None) \<and>
   (\<exists>s' e. compile (demo_world\<lparr>open_r := \<lambda>p. Inl (Exn OSError ''No such file'' None)\<rparr>)
             script_test = (s', [], Inl e)) \<and>
   (\<exists>s' e. run_test SampleTest_injection
             (demo_world\<lparr>open_r := \<lambda>p. Inl (Exn OSError ''No such file'' None)\<rparr>)
             script_test = (s', [], Inl e))"
proof -
  let ?w = "demo_world\<lparr>open_r := \<lambda>p. Inl (Exn OSError ''No such file'' None)\<rparr>"
  have a: "make_schema ?w (SCHEMA_CONFIG ?w) = Inr (Schema ''/c/schema.config.yaml'')"
    by (simp add: demo_world_def)
  have b: "load_config ?w (Schema ''/c/schema.config.yaml'') (DEFAULT_CONFIG ?w)
             = Inl (Exn OSError ''No such file'' None)"
    by (simp add: demo_world_def load_config_def)
  from default_config_failure[OF a b, of script_test SampleTest_injection] b show ?thesis
    by (simp add: demo_world_def)
qed

section \<open>The configuration of a notebook test\<close>

text \<open>
  Claim C1, amended. For a notebook test whose default configuration loaded, a failure to
  load the per-test configuration with an \<open>OSError\<close> (the file is missing or cannot be read)
  or a \<open>yaml.YAMLError\<close> (it does not parse) does not abort: \<open>_compile\<close> prints a warning,
  keeps the default parameters (no notebook parameters, \<open>run_pipeline\<close> of the default
  configuration), executes the notebook with them, and, when the notebook execution, the
  conversion and the temporary file go through, starts the compiler, whose exit code alone
  decides the outcome. Any other exception of the loading, in particular the \<open>ValueError\<close>
  of a configuration that fails the schema, goes out of \<open>_compile\<close> as it is, before the
  notebook is executed.
\<close>

theorem per_test_config_failure:
  assumes "isfile w (test_path st)"
    and "os_path_splitext (snd (os_path_split (test_path st))) = (name, ''.ipynb'')"
    and "make_schema w (SCHEMA_CONFIG w) = Inr sch"
    and "load_config w sch (DEFAULT_CONFIG w) = Inr raw"
    and "subscript raw ''run_pipeline'' = Inr rp"
    and "load_config w sch (os_path_join (CONFIG_DIR w) (name @ ''.config.yaml'')) = Inl err"
  shows "(isinstance err YAMLError \<or> isinstance err OSError \<longrightarrow>
            (\<exists>s' tr r. compile w st =
               (s',
                Print ((if isinstance err YAMLError
                        then ''No legit yaml config file found, use default args:''
                        else ''Config file with the same name not found, use default args:'')
                       @ msg err)
                  # ExecuteNotebook (test_path st) (test_path st) [] # tr, r)
               \<and> run_pipeline s' = Some rp) \<and>
            (execute_notebook w (test_path st) (test_path st) [] = None \<and>
             subprocess_call w (nbconvert_args (test_path st)) = Inr rc \<and>
             named_temporary_file w = Inr f \<longrightarrow>
               compile w st =
                 (st\<lparr>test_name := Some name, is_notebook := Some True,
                     run_pipeline := Some rp, compiled_path := Some f\<rparr>,
                  [Print ((if isinstance err YAMLError
                           then ''No legit yaml config file found, use default args:''
                           else ''Config file with the same name not found, use default args:'')
                          @ msg err),
                   ExecuteNotebook (test_path st) (test_path st) [],
                   Subprocess (nbconvert_args (test_path st)) (Inr rc),
                   CreateTempFile f,
                   Subprocess (compile_args (test_path st) f (func st))
                     (subprocess_call w (compile_args (test_path st) f (func st)))],
                  case subprocess_call w (compile_args (test_path st) f (func st)) of
                    Inl e \<Rightarrow> Inl e
                  | Inr rc' \<Rightarrow> if rc' = 0 then Inr () else Inl (Exn AssertionError [] None)))) \<and>
         (\<not> isinstance err YAMLError \<and> \<not> isinstance err OSError \<longrightarrow>
            compile w st =
              (st\<lparr>test_name := Some name, is_notebook := Some True, run_pipeline := Some rp\<rparr>,
               [], Inl err))"
  by (auto simp add: compile_notebook_stage[OF assms(1-5)] compile_notebook_cases
      test_config_failure[OF _ assms(6)] compile_pipeline_cases bnd_def ret_def
      split: sum.splits option.splits)

lemma demo_schema: "make_schema demo_world (SCHEMA_CONFIG demo_world) = Inr (Schema ''/c/schema.config.yaml'')"
  by (simp add: demo_world_def)

lemma demo_default:
  "load_config demo_world (Schema ''/c/schema.config.yaml'') (DEFAULT_CONFIG demo_world)
     = Inr (YDict [(''run_pipeline'', YBool True)])"
  by (simp add: demo_world_def load_config_def)

lemma compile_invalid_config:
  "compile invalid_config_world notebook_test =
     (notebook_test\<lparr>test_name := Some ''b'', is_notebook := Some True,
        run_pipeline := Some (YBool True)\<rparr>,
      [], Inl (Exn ValueError ''schema'' None))"
  by code_simp

lemma compile_broken_yaml:
  "compile broken_yaml_world notebook_test =
     (notebook_test\<lparr>test_name := Some ''b'', is_notebook := Some True,
        run_pipeline := Some (YBool True), compiled_path := Some ''/tmp/x.yaml''\<rparr>,
      [Print ''No legit yaml config file found, use default args:bad yaml'',
       ExecuteNotebook ''/s/b.ipynb'' ''/s/b.ipynb'' [],
       Subprocess [''jupyter'', ''nbconvert'', ''--to'', ''python'', ''/s/b.ipynb''] (Inr 0),
       CreateTempFile ''/tmp/x.yaml'',
       Subprocess [''kfp'', ''dsl'', ''compile'', ''--py'', ''/s/b.ipynb'', ''--output'',
                   ''/tmp/x.yaml''] (Inr 0)],
      Inr ())"
  by code_simp

theorem per_test_config_failure_witness:
  "load_config demo_world (Schema ''/c/schema.config.yaml'') ''/c/b.config.yaml''
     = Inl (Exn OSError ''No such file'' None) \<and>
   compile demo_world notebook_test =
     (notebook_test\<lparr>test_name := Some ''b'', is_notebook := Some True,
        run_pipeline := Some (YBool True), compiled_path := Some ''/tmp/x.yaml''\<rparr>,
      [Print ''Config file with the same name not found, use default args:No such file'',
       ExecuteNotebook ''/s/b.ipynb'' ''/s/b.ipynb'' [],
       Subprocess [''jupyter'', ''nbconvert'', ''--to'', ''python'', ''/s/b.ipynb''] (Inr 0),
       CreateTempFile ''/tmp/x.yaml'',
       Subprocess [''kfp'', ''dsl'', ''compile'', ''--py'', ''/s/b.ipynb'', ''--output'',
                   ''/tmp/x.yaml''] (Inr 0)],
      Inr ()) \<and>
   load_config invalid_config_world (Schema ''/c/schema.config.yaml'') ''/c/b.config.yaml''
     = Inl (Exn ValueError ''schema'' None) \<and>
   compile invalid_config_world notebook_test =
     (notebook_test\<lparr>test_name := Some ''b'', is_notebook := Some True,
        run_pipeline := Some (YBool True)\<rparr>,
      [], Inl (Exn ValueError ''schema'' None))"
proof -
  have f: "isfile demo_world (test_path notebook_test)"
    by (simp add: demo_world_def notebook_test_def)
  have x: "os_path_splitext (snd (os_path_split (test_path notebook_test))) = (''b'', ''.ipynb'')"
    by (simp add: notebook_test_def splitext_notebook)
  have r: "subscript (YDict [(''run_pipeline'', YBool True)]) ''run_pipeline'' = Inr (YBool True)"
    by simp
  have j: "os_path_join (CONFIG_DIR demo_world) (''b'' @ ''.config.yaml'') = ''/c/b.config.yaml''"
    by (simp add: demo_world_def os_path_join_def)
  have l: "load_config demo_world (Schema ''/c/schema.config.yaml'')
             (os_path_join (CONFIG_DIR demo_world) (''b'' @ ''.config.yaml''))
           = Inl (Exn OSError ''No such file'' None)"
    unfolding j
    by (simp add: demo_world_def load_config_def)
  have f': "isfile invalid_config_world (test_path notebook_test)"
    by (simp add: invalid_config_world_def demo_world_def notebook_test_def)
  have s': "make_schema invalid_config_world (SCHEMA_CONFIG invalid_config_world)
              = Inr (Schema ''/c/schema.config.yaml'')"
    by (simp add: invalid_config_world_def demo_world_def)
  have d': "load_config invalid_config_world (Schema ''/c/schema.config.yaml'')
              (DEFAULT_CONFIG invalid_config_world) = Inr (YDict [(''run_pipeline'', YBool True)])"
    by (simp add: invalid_config_world_def demo_world_def load_config_def)
  have j': "os_path_join (CONFIG_DIR invalid_config_world) (''b'' @ ''.config.yaml'')
              = ''/c/b.config.yaml''"
    by (simp add: invalid_config_world_def demo_world_def os_path_join_def)
  have l': "load_config invalid_config_world (Schema ''/c/schema.config.yaml'')
              (os_path_join (CONFIG_DIR invalid_config_world) (''b'' @ ''.config.yaml''))
            = Inl (Exn ValueError ''schema'' None)"
    unfolding j'
    by (simp add: invalid_config_world_def demo_world_def load_config_def)
  from per_test_config_failure[OF f x demo_schema demo_default r l, of 0 "''/tmp/x.yaml''"]
  have "compile demo_world notebook_test =
     (notebook_test\<lparr>test_name := Some ''b'', is_notebook := Some True,
        run_pipeline := Some (YBool True), compiled_path := Some ''/tmp/x.yaml''\<rparr>,
      [Print ''Config file with the same name not found, use default args:No such file'',
       ExecuteNotebook ''/s/b.ipynb'' ''/s/b.ipynb'' [],
       Subprocess [''jupyter'', ''nbconvert'', ''--to'', ''python'', ''/s/b.ipynb''] (Inr 0),
       CreateTempFile ''/tmp/x.yaml'',
       Subprocess [''kfp'', ''dsl'', ''compile'', ''--py'', ''/s/b.ipynb'', ''--output'',
                   ''/tmp/x.yaml''] (Inr 0)],
      Inr ())"
    by (simp add: isinstance_def issubclass_def demo_world_def notebook_test_def script_test_def
        nbconvert_args_def compile_args_def)
  moreover from per_test_config_failure[OF f' x s' d' r l']
  have "compile invalid_config_world notebook_test =
     (notebook_test\<lparr>test_name := Some ''b'', is_notebook := Some True,
        run_pipeline := Some (YBool True)\<rparr>,
      [], Inl (Exn ValueError ''schema'' None))"
    by (simp add: isinstance_def issubclass_def)
  ultimately show ?thesis
    using l l' j j'
    by simp
qed

text \<open>The same on a per-test configuration that does not parse.\<close>

lemma per_test_config_broken_yaml:
  "load_config broken_yaml_world (Schema ''/c/schema.config.yaml'') ''/c/b.config.yaml''
     = Inl (Exn YAMLError ''bad yaml'' None) \<and>
   compile broken_yaml_world notebook_test =
     (notebook_test\<lparr>test_name := Some ''b'', is_notebook := Some True,
        run_pipeline := Some (YBool True), compiled_path := Some ''/tmp/x.yaml''\<rparr>,
      [Print ''No legit yaml config file found, use default args:bad yaml'',
       ExecuteNotebook ''/s/b.ipynb'' ''/s/b.ipynb'' [],
       Subprocess [''jupyter'', ''nbconvert'', ''--to'', ''python'', ''/s/b.ipynb''] (Inr 0),
       CreateTempFile ''/tmp/x.yaml'',
       Subprocess [''kfp'', ''dsl'', ''compile'', ''--py'', ''/s/b.ipynb'', ''--output'',
                   ''/tmp/x.yaml''] (Inr 0)],
      Inr ())"
  by (simp add: compile_broken_yaml) (simp add: broken_yaml_world_def demo_world_def load_config_def)

text \<open>
  The claim as it was stated fails for a configuration that does not pass the schema: the
  \<open>ValueError\<close> of the validator is neither a \<open>YAMLError\<close> nor an \<open>OSError\<close>, so \<open>_compile\<close>
  raises it, with no warning printed and the notebook not executed.
\<close>

theorem invalid_config_counterexample:
  "validate invalid_config_world (Schema ''/c/schema.config.yaml'') (YData ''/c/b.config.yaml'')
     = Some (Exn ValueError ''schema'' None) \<and>
   compile invalid_config_world notebook_test =
     (notebook_test\<lparr>test_name := Some ''b'', is_notebook := Some True,
        run_pipeline := Some (YBool True)\<rparr>,
      [], Inl (Exn ValueError ''schema'' None))"
  by (simp add: compile_invalid_config) (simp add: invalid_config_world_def)

section \<open>The exit codes of the subprocesses\<close>

lemma compiler_failure_aborts:
  assumes c: "compile w st = (st', tr, r)"
    and ev: "Subprocess args (Inr rc) \<in> set tr"
    and kfp: "take 3 args = [''kfp'', ''dsl'', ''compile'']"
    and rc: "rc \<noteq> 0"
  shows "r = Inl (Exn AssertionError [] None)"
proof -
  obtain s1 t1 r1 where p: "compile_prepare w st = (s1, t1, r1)"
    by (cases "compile_prepare w st") auto
  have "emits (\<lambda>ev. \<not> is_compiler_call ev) (compile_prepare w)"
    by (rule compile_prepare_emits) (simp_all add: nbconvert_args_def)
  with p have t1: "\<forall>ev \<in> set t1. \<not> is_compiler_call ev"
    by (auto simp: emits_def list_all_iff dest!: spec[of _ st])
  from ev kfp have e: "Subprocess args (Inr rc) \<notin> set t1"
    using t1
    by force
  show ?thesis
  proof (cases r1)
    case (Inl e1)
    with p c have "tr = t1"
      by (simp add: compile_def bnd_def)
    with ev e show ?thesis
      by simp
  next
    case (Inr x)
    show ?thesis
    proof (cases "named_temporary_file w")
      case (Inl e2)
      with p c Inr have "tr = t1"
        by (simp add: compile_def bnd_def compile_pipeline_cases)
      with ev e show ?thesis
        by simp
    next
      case (Inr f)
      with p c \<open>r1 = Inr x\<close> ev e rc show ?thesis
        by (auto simp: compile_def bnd_def compile_pipeline_cases split: sum.splits)
    qed
  qed
qed

text \<open>
  Claim C2. If the compiler subprocess (\<open>kfp dsl compile ...\<close>) was started by \<open>_compile\<close>
  and exited with a code other than 0, then \<open>_compile\<close> raises \<open>AssertionError\<close>, and
  \<open>run_test\<close>, with any \<open>_injection\<close>, ends there with the same exception: it has caused the
  events of \<open>_compile\<close> and no others, none of which belongs to the run phase (no
  environment variable set, no directory changed, no checker built, run or checked).
\<close>

theorem compiler_exit_code:
  assumes "compile w st = (st', tr, r)"
    and "Subprocess args (Inr rc) \<in> set tr"
    and "take 3 args = [''kfp'', ''dsl'', ''compile'']"
    and "rc \<noteq> 0"
  shows "r = Inl (Exn AssertionError [] None) \<and>
         run_test injection w st = (st', tr, Inl (Exn AssertionError [] None)) \<and>
         list_all (\<lambda>ev. \<not> is_run_phase ev) tr"
proof -
  have r: "r = Inl (Exn AssertionError [] None)"
    by (rule compiler_failure_aborts[OF assms])
  with assms(1) have "run_test injection w st = (st', tr, Inl (Exn AssertionError [] None))"
    by (simp add: run_test_def bnd_def)
  moreover from compile_no_run_phase[of w] assms(1)
  have "list_all (\<lambda>ev. \<not> is_run_phase ev) tr"
    by (auto simp: emits_def dest!: spec[of _ st])
  ultimately show ?thesis
    using r
    by simp
qed

lemma compile_script_exit_1:
  "compile (demo_world\<lparr>subprocess_call := \<lambda>args. Inr 1\<rparr>) script_test =
     (script_test\<lparr>test_name := Some ''a'', is_notebook := Some False,
        run_pipeline := Some (YBool True), compiled_path := Some ''/tmp/x.yaml''\<rparr>,
      [CreateTempFile ''/tmp/x.yaml'',
       Subprocess [''kfp'', ''dsl'', ''compile'', ''--py'', ''/s/a.py'', ''--output'',
                   ''/tmp/x.yaml''] (Inr 1)],
      Inl (Exn AssertionError [] None))"
  by code_simp

theorem compiler_exit_code_witness:
  "run_test SampleTest_injection (demo_world\<lparr>subprocess_call := \<lambda>args. Inr 1\<rparr>) script_test =
     (script_test\<lparr>test_name := Some ''a'', is_notebook := Some False,
        run_pipeline := Some (YBool True), compiled_path := Some ''/tmp/x.yaml''\<rparr>,
      [CreateTempFile ''/tmp/x.yaml'',
       Subprocess [''kfp'', ''dsl'', ''compile'', ''--py'', ''/s/a.py'', ''--output'',
                   ''/tmp/x.yaml''] (Inr 1)],
      Inl (Exn AssertionError [] None))"
proof -
  have "Subprocess [''kfp'', ''dsl'', ''compile'', ''--py'', ''/s/a.py'', ''--output'',
                    ''/tmp/x.yaml''] (Inr 1)
          \<in> set [CreateTempFile ''/tmp/x.yaml'',
                 Subprocess [''kfp'', ''dsl'', ''compile'', ''--py'', ''/s/a.py'', ''--output'',
                             ''/tmp/x.yaml''] (Inr 1)]"
    by simp
  from compiler_exit_code[OF compile_script_exit_1 this, of SampleTest_injection]
  show ?thesis
    by simp
qed

lemma compile_pipeline_ignores:
  "compile_pipeline (w\<lparr>subprocess_call := (subprocess_call w)(nbconvert_args p := res)\<rparr>) x s =
   compile_pipeline w y s"
  by (simp add: compile_pipeline_cases compile_args_def nbconvert_args_def
      cong: sum.case_cong)

lemma load_config_ignores:
  "load_config (w\<lparr>subprocess_call := f\<rparr>) sch p = load_config w sch p"
  by (simp add: load_config_def cong: sum.case_cong option.case_cong)

lemma compile_notebook_exit_code:
  assumes "subprocess_call w (nbconvert_args p) = Inr rc" and "test_path s = p"
  shows "same_but_value
           (compile_notebook (w\<lparr>subprocess_call := (subprocess_call w)(nbconvert_args p := Inr rc')\<rparr>)
              sch s)
           (compile_notebook w sch s)"
proof -
  let ?w = "w\<lparr>subprocess_call := (subprocess_call w)(nbconvert_args p := Inr rc')\<rparr>"
  have t: "test_config ?w sch = test_config w sch"
    by (simp add: test_config_def load_config_ignores)
  obtain s1 t1 r1 where c: "test_config w sch s = (s1, t1, r1)"
    by (cases "test_config w sch s") auto
  from test_config_test_path[OF c] assms(2) have "test_path s1 = p"
    by simp
  with assms(1) c show ?thesis
    by (simp add: same_but_value_def compile_notebook_cases t split: sum.splits option.splits)
qed

lemma compile_prepare_exit_code:
  assumes "subprocess_call w (nbconvert_args (test_path st)) = Inr rc"
  shows "same_but_value
           (compile_prepare
              (w\<lparr>subprocess_call := (subprocess_call w)(nbconvert_args (test_path st) := Inr rc')\<rparr>)
              st)
           (compile_prepare w st)"
proof -
  let ?w = "w\<lparr>subprocess_call := (subprocess_call w)(nbconvert_args (test_path st) := Inr rc')\<rparr>"
  have d: "default_config ?w sch = default_config w sch" for sch
    by (rule ext) (simp add: default_config_cases load_config_ignores)
  have n: "same_but_value (compile_notebook ?w sch s) (compile_notebook w sch s)"
    if "test_path s = test_path st" for sch s
    by (rule compile_notebook_exit_code[OF assms that])
  show ?thesis
  proof (cases "isfile w (test_path st)")
    case False
    then show ?thesis
      by (simp add: same_but_value_def compile_prepare_def bnd_def compile_kind_cases)
  next
    case True
    obtain name ext where x: "os_path_splitext (snd (os_path_split (test_path st))) = (name, ext)"
      by (cases "os_path_splitext (snd (os_path_split (test_path st)))") auto
    show ?thesis
    proof (cases "make_schema w (SCHEMA_CONFIG w)")
      case (Inl e)
      with True x show ?thesis
        by (simp add: same_but_value_def compile_prepare_def bnd_def compile_kind_cases call_def)
    next
      case (Inr sch)
      show ?thesis
      proof (cases "ext = ''.ipynb''")
        case False
        with True x Inr show ?thesis
          by (simp add: same_but_value_def compile_prepare_def bnd_def compile_kind_cases call_def
              d default_config_cases getf_def ret_def split: sum.splits)
      next
        case nb: True
        show ?thesis
        proof (cases "default_config w sch
                (st\<lparr>test_name := Some name, is_notebook := Some True\<rparr>)")
          case (fields s2 t2 r2)
          then have tp: "test_path s2 = test_path st"
            by (auto simp: default_config_cases split: sum.splits)
          have nb2: "r2 = Inr () \<Longrightarrow> is_notebook s2 = Some True"
            using fields
            by (auto simp: default_config_cases split: sum.splits)
          from n[OF tp, of sch] True x Inr nb fields nb2 show ?thesis
            by (cases r2)
               (auto simp: same_but_value_def compile_prepare_def bnd_def compile_kind_cases
                  call_def d getf_def ret_def split: sum.splits prod.splits)
        qed
      qed
    qed
  qed
qed

text \<open>
  Claim C9. The exit code of \<open>jupyter nbconvert\<close> is never looked at: \<open>return_code\<close> is
  assigned again by the compiler call before the assertion reads it. So whatever code the
  conversion exits with, \<open>_compile\<close> ends in the same state and with the same outcome
  (returning, or raising the same exception) as with the code it had: a conversion that
  exits with a failure code does not by itself abort the test.
\<close>

theorem nbconvert_exit_code:
  assumes "subprocess_call w (nbconvert_args (test_path st)) = Inr rc"
  shows "fst (compile (w\<lparr>subprocess_call :=
                         (subprocess_call w)(nbconvert_args (test_path st) := Inr rc')\<rparr>) st)
           = fst (compile w st) \<and>
         snd (snd (compile (w\<lparr>subprocess_call :=
                         (subprocess_call w)(nbconvert_args (test_path st) := Inr rc')\<rparr>) st))
           = snd (snd (compile w st))"
proof -
  let ?w = "w\<lparr>subprocess_call := (subprocess_call w)(nbconvert_args (test_path st) := Inr rc')\<rparr>"
  obtain s1 t1 r1 where p: "compile_prepare w st = (s1, t1, r1)"
    by (cases "compile_prepare w st") auto
  obtain s2 t2 r2 where q: "compile_prepare ?w st = (s2, t2, r2)"
    by (cases "compile_prepare ?w st") auto
  from compile_prepare_exit_code[OF assms, of rc'] p q
  have s: "s2 = s1"
    and r: "case r1 of Inl e \<Rightarrow> r2 = Inl e | Inr _ \<Rightarrow> (case r2 of Inl _ \<Rightarrow> False | Inr _ \<Rightarrow> True)"
    by (auto simp add: same_but_value_def split: sum.splits)
  show ?thesis
  proof (cases r1)
    case (Inl e)
    with r p q s show ?thesis
      by (simp add: compile_def bnd_def)
  next
    case (Inr x)
    with r obtain y where y: "r2 = Inr y"
      by (cases r2) auto
    have "compile_pipeline ?w y s1 = compile_pipeline w x s1"
      by (rule compile_pipeline_ignores)
    with Inr y p q s show ?thesis
      by (simp add: compile_def bnd_def split: prod.splits)
  qed
qed

lemma compile_notebook_exit_1:
  "compile (demo_world\<lparr>subprocess_call :=
       (subprocess_call demo_world)(nbconvert_args (test_path notebook_test) := Inr 1)\<rparr>)
     notebook_test =
     (notebook_test\<lparr>test_name := Some ''b'', is_notebook := Some True,
        run_pipeline := Some (YBool True), compiled_path := Some ''/tmp/x.yaml''\<rparr>,
      [Print ''Config file with the same name not found, use default args:No such file'',
       ExecuteNotebook ''/s/b.ipynb'' ''/s/b.ipynb'' [],
       Subprocess [''jupyter'', ''nbconvert'', ''--to'', ''python'', ''/s/b.ipynb''] (Inr 1),
       CreateTempFile ''/tmp/x.yaml'',
       Subprocess [''kfp'', ''dsl'', ''compile'', ''--py'', ''/s/b.ipynb'', ''--output'',
                   ''/tmp/x.yaml''] (Inr 0)],
      Inr ())"
  by code_simp

theorem nbconvert_exit_code_witness:
  "subprocess_call demo_world (nbconvert_args (test_path notebook_test)) = Inr 0 \<and>
   Subprocess (nbconvert_args (test_path notebook_test)) (Inr 1)
     \<in> set (fst (snd (compile (demo_world\<lparr>subprocess_call :=
           (subprocess_call demo_world)(nbconvert_args (test_path notebook_test) := Inr 1)\<rparr>)
         notebook_test))) \<and>
   snd (snd (compile (demo_world\<lparr>subprocess_call :=
       (subprocess_call demo_world)(nbconvert_args (test_path notebook_test) := Inr 1)\<rparr>)
     notebook_test)) = Inr ()"
proof -
  have h: "subprocess_call demo_world (nbconvert_args (test_path notebook_test)) = Inr 0"
    by (simp add: demo_world_def)
  have e: "Subprocess (nbconvert_args (test_path notebook_test)) (Inr 1)
     \<in> set (fst (snd (compile (demo_world\<lparr>subprocess_call :=
           (subprocess_call demo_world)(nbconvert_args (test_path notebook_test) := Inr 1)\<rparr>)
         notebook_test)))"
    by (simp add: compile_notebook_exit_1) (simp add: nbconvert_args_def notebook_test_def)
  from nbconvert_exit_code[OF h, of 1] h e show ?thesis
    by (simp add: compile_notebook_run)
qed

section \<open>The matcher and the substitution\<close>

lemma matches_Str: "s' \<in> set (matches (Str t) s) \<Longrightarrow> s = t @ s'"
  by (auto simp: matches.simps(1) prefix_def split: if_splits)

lemma matches_Cls: "s' \<in> set (matches (Cls P) s) \<Longrightarrow> \<exists>c. s = [c] @ s' \<and> P c"
  by (cases s) (simp_all add: matches.simps(2) split: if_splits)

lemma matches_Seq:
  "s' \<in> set (matches (Seq a b) s) \<Longrightarrow> \<exists>s1 \<in> set (matches a s). s' \<in> set (matches b s1)"
  by (simp add: matches.simps(3))

lemma matches_Alt:
  "s' \<in> set (matches (Alt a b) s) \<Longrightarrow> s' \<in> set (matches a s) \<or> s' \<in> set (matches b s)"
  by (simp add: matches.simps(4))

lemma matches_Plus:
  "s' \<in> set (matches (Plus a) s) \<Longrightarrow>
     \<exists>s1 \<in> set (matches a s). (length s1 < length s \<and> s' \<in> set (matches (Plus a) s1)) \<or> s' = s1"
  by (subst (asm) matches.simps(5)) (auto split: if_splits)

text \<open>What the matcher consumes is a match of the pattern.\<close>

lemma matches_sound:
  "s' \<in> set (matches r s) \<Longrightarrow> \<exists>m. s = m @ s' \<and> in_lang r m"
proof (induction r s arbitrary: s' rule: matches.induct)
  case (1 t s)
  from matches_Str[OF "1.prems"] show ?case
    by (blast intro: in_Str)
next
  case (2 P s)
  from matches_Cls[OF "2.prems"] show ?case
    by (blast intro: in_Cls)
next
  case (3 a b s)
  from matches_Seq[OF "3.prems"]
  obtain s1 where s1: "s1 \<in> set (matches a s)" and s2: "s' \<in> set (matches b s1)"
    by blast
  from "3.IH"(1)[OF s1] obtain m1 where m1: "s = m1 @ s1" "in_lang a m1"
    by blast
  from "3.IH"(2)[OF s1 s2] obtain m2 where m2: "s1 = m2 @ s'" "in_lang b m2"
    by blast
  from m1 m2 have "s = (m1 @ m2) @ s'" and "in_lang (Seq a b) (m1 @ m2)"
    by (simp_all add: in_Seq)
  then show ?case
    by blast
next
  case (4 a b s)
  from matches_Alt[OF "4.prems"] show ?case
  proof
    assume "s' \<in> set (matches a s)"
    from "4.IH"(1)[OF this] show ?thesis
      by (blast intro: in_AltL)
  next
    assume "s' \<in> set (matches b s)"
    from "4.IH"(2)[OF this] show ?thesis
      by (blast intro: in_AltR)
  qed
next
  case (5 a s)
  from matches_Plus[OF "5.prems"]
  obtain s1 where s1: "s1 \<in> set (matches a s)"
    and s2: "(length s1 < length s \<and> s' \<in> set (matches (Plus a) s1)) \<or> s' = s1"
    by blast
  from "5.IH"(1)[OF s1] obtain m1 where m1: "s = m1 @ s1" "in_lang a m1"
    by blast
  from s2 show ?case
  proof
    assume a: "length s1 < length s \<and> s' \<in> set (matches (Plus a) s1)"
    with "5.IH"(2)[OF s1] obtain m2 where m2: "s1 = m2 @ s'" "in_lang (Plus a) m2"
      by blast
    from m1 m2 have "s = (m1 @ m2) @ s'" and "in_lang (Plus a) (m1 @ m2)"
      by (simp_all add: in_PlusS)
    then show ?thesis
      by blast
  next
    assume "s' = s1"
    with m1 show ?thesis
      by (blast intro: in_Plus1)
  qed
qed

text \<open>The pieces of a scan, put together again, are the text that was scanned.\<close>

lemma scan_text: "concat (map piece_text (scan r s)) = s"
proof (induction r s rule: scan.induct)
  case (1 r s)
  show ?case
  proof (cases "matches r s")
    case Nil
    show ?thesis
    proof (cases s)
      case Nil
      with \<open>matches r s = []\<close> show ?thesis
        by (subst scan.simps) simp
    next
      case (Cons c cs)
      with \<open>matches r s = []\<close> "1.IH"(1)[OF \<open>matches r s = []\<close> Cons] show ?thesis
        by (subst scan.simps) simp
    qed
  next
    case (Cons s' rest)
    then have "s' \<in> set (matches r s)"
      by simp
    from matches_sound[OF this] obtain m where m: "s = m @ s'"
      by blast
    show ?thesis
    proof (cases "length s' < length s")
      case True
      with Cons "1.IH"(2)[OF Cons True] m show ?thesis
        by (subst scan.simps) simp
    next
      case False
      show ?thesis
      proof (cases s)
        case Nil
        with Cons False show ?thesis
          by (subst scan.simps) simp
      next
        case (Cons c cs)
        with \<open>matches r s = s' # rest\<close> False
          "1.IH"(3)[OF \<open>matches r s = s' # rest\<close> False Cons] show ?thesis
          by (subst scan.simps) simp
      qed
    qed
  qed
qed

text \<open>Every hit of a scan is a match of the pattern.\<close>

lemma scan_hits: "Hit m \<in> set (scan r s) \<Longrightarrow> in_lang r m"
proof (induction r s rule: scan.induct)
  case (1 r s)
  show ?case
  proof (cases "matches r s")
    case Nil
    show ?thesis
    proof (cases s)
      case Nil
      with \<open>matches r s = []\<close> "1.prems" show ?thesis
        by (subst (asm) scan.simps) simp
    next
      case (Cons c cs)
      with \<open>matches r s = []\<close> "1.prems" "1.IH"(1)[OF \<open>matches r s = []\<close> Cons]
      show ?thesis
        by (subst (asm) scan.simps) simp
    qed
  next
    case (Cons s' rest)
    then have "s' \<in> set (matches r s)"
      by simp
    from matches_sound[OF this] obtain m' where m': "s = m' @ s'" "in_lang r m'"
      by blast
    show ?thesis
    proof (cases "length s' < length s")
      case True
      with Cons "1.prems"
      have "Hit m = Hit (take (length s - length s') s) \<or> Hit m \<in> set (scan r s')"
        by (subst (asm) scan.simps) simp
      with "1.IH"(2)[OF Cons True] m' show ?thesis
        by auto
    next
      case False
      with m' have e: "m' = []"
        by simp
      show ?thesis
      proof (cases s)
        case Nil
        with Cons False "1.prems" e m' show ?thesis
          by (subst (asm) scan.simps) simp
      next
        case (Cons c cs)
        with \<open>matches r s = s' # rest\<close> False "1.prems"
        have "m = [] \<or> Hit m \<in> set (scan r cs)"
          by (subst (asm) scan.simps) simp
        with "1.IH"(3)[OF \<open>matches r s = s' # rest\<close> False Cons] e m' show ?thesis
          by auto
      qed
    qed
  qed
qed

section \<open>The image patterns\<close>

inductive_cases in_SeqE: "in_lang (Seq a b) m"

inductive_cases in_StrE: "in_lang (Str t) m"

lemma tag_lang:
  assumes "in_lang r m"
    and "r \<in> {Cls wd, Cls dot_or_hyphen, Plus (Cls wd),
               Alt (Plus (Cls wd)) (Cls dot_or_hyphen), Alt (Cls wd) (Cls dot_or_hyphen),
               Plus (Alt (Plus (Cls wd)) (Cls dot_or_hyphen)),
               Plus (Alt (Cls wd) (Cls dot_or_hyphen))}"
  shows "m \<noteq> [] \<and> list_all (\<lambda>c. wd c \<or> c = CHR ''.'' \<or> c = CHR ''-'') m"
  using assms
  by (induction rule: in_lang.induct) (auto simp: dot_or_hyphen_def)

lemma image_rx_lang:
  assumes "in_lang (Seq (Str (name @ '':'')) t) m"
    and "t = Plus (Alt (Plus (Cls wd)) (Cls dot_or_hyphen)) \<or>
         t = Plus (Alt (Cls wd) (Cls dot_or_hyphen))"
  shows "image_ref wd name m"
proof -
  from assms(1) obtain u v where m: "m = u @ v" and u: "in_lang (Str (name @ '':'')) u"
    and v: "in_lang t v"
    by (auto elim: in_SeqE)
  from u have u': "u = name @ '':''"
    by (auto elim: in_StrE)
  from tag_lang[OF v, of wd] assms(2)
  have "v \<noteq> [] \<and> list_all (\<lambda>c. wd c \<or> c = CHR ''.'' \<or> c = CHR ''-'') v"
    by auto
  with m u' show ?thesis
    by (simp add: image_ref_def)
qed

lemma injection_subs_lang:
  assumes "(r, new) \<in> set (injection_subs w st)" and "in_lang r m"
  shows "image_reference (re_word w) m"
proof -
  from assms(1) have "r = confusion_matrix_rx (re_word w) \<or> r = roc_rx (re_word w)
      \<or> r = gcp_rx (re_word w)"
    by (auto simp: injection_subs_def split: if_splits)
  with assms(2) show ?thesis
    unfolding image_reference_def confusion_matrix_rx_def roc_rx_def gcp_rx_def
    by (auto intro: image_rx_lang)
qed

text \<open>
  Claim C7. Whatever a pattern of \<open>ComponentTest._injection\<close> matches is a fully-qualified
  reference to one of the three \<open>gcr.io/ml-pipeline/...\<close> images: the image name, a colon and
  a tag of word characters, dots and hyphens (the tag is there in every match: the patterns
  ask for at least one tag character). Substituting a pattern cuts the text into pieces
  that, put together, are the text; the pieces that are replaced are such image
  references, and every other piece is in the result as it was in the text.
\<close>

theorem image_patterns:
  assumes "(r, new) \<in> set (injection_subs w st)"
  shows "(\<forall>m. in_lang r m \<longrightarrow> image_reference (re_word w) m) \<and>
         (\<forall>s. concat (map piece_text (scan r s)) = s \<and>
              re_sub r new s = concat (map (piece_sub new) (scan r s)) \<and>
              (\<forall>m. Hit m \<in> set (scan r s) \<longrightarrow> image_reference (re_word w) m))"
  using injection_subs_lang[OF assms] scan_hits[of _ r]
  by (auto simp: scan_text re_sub_def)

lemma scan_gcp:
  "scan (gcp_rx ascii_word) ''image: gcr.io/ml-pipeline/ml-pipeline-gcp:1.0.0-rc.3 # x'' =
     [Keep ''i'', Keep ''m'', Keep ''a'', Keep ''g'', Keep ''e'', Keep '':'', Keep '' '',
      Hit ''gcr.io/ml-pipeline/ml-pipeline-gcp:1.0.0-rc.3'',
      Keep '' '', Keep ''#'', Keep '' '', Keep ''x'']"
  by code_simp

theorem image_patterns_witness:
  "(gcp_rx (re_word demo_world), ''gcp-img'') \<in> set (injection_subs demo_world xgboost_test) \<and>
   Hit ''gcr.io/ml-pipeline/ml-pipeline-gcp:1.0.0-rc.3''
     \<in> set (scan (gcp_rx (re_word demo_world))
              ''image: gcr.io/ml-pipeline/ml-pipeline-gcp:1.0.0-rc.3 # x'') \<and>
   image_reference (re_word demo_world) ''gcr.io/ml-pipeline/ml-pipeline-gcp:1.0.0-rc.3'' \<and>
   re_sub (gcp_rx (re_word demo_world)) ''gcp-img''
     ''image: gcr.io/ml-pipeline/ml-pipeline-gcp:1.0.0-rc.3 # x'' = ''image: gcp-img # x''"
proof -
  have w: "re_word demo_world = ascii_word"
    by (simp add: demo_world_def)
  have h: "(gcp_rx (re_word demo_world), ''gcp-img'')
             \<in> set (injection_subs demo_world xgboost_test)"
    by (simp add: injection_subs_def xgboost_test_def script_test_def sample_test.defs)
  have i: "Hit ''gcr.io/ml-pipeline/ml-pipeline-gcp:1.0.0-rc.3''
     \<in> set (scan (gcp_rx (re_word demo_world))
              ''image: gcr.io/ml-pipeline/ml-pipeline-gcp:1.0.0-rc.3 # x'')"
    by (simp add: w scan_gcp)
  from image_patterns[OF h] i
  have "image_reference (re_word demo_world) ''gcr.io/ml-pipeline/ml-pipeline-gcp:1.0.0-rc.3''"
    and "re_sub (gcp_rx (re_word demo_world)) ''gcp-img''
           ''image: gcr.io/ml-pipeline/ml-pipeline-gcp:1.0.0-rc.3 # x''
         = concat (map (piece_sub ''gcp-img'')
             (scan (gcp_rx (re_word demo_world))
                ''image: gcr.io/ml-pipeline/ml-pipeline-gcp:1.0.0-rc.3 # x''))"
    by blast+
  with h i show ?thesis
    by (simp add: w scan_gcp)
qed

section \<open>Image injection\<close>

lemma file_injection_cases:
  "file_injection w file_in file_out subs s =
     (case open_r w file_in of
        Inl e \<Rightarrow> (s, [], Inl e)
      | Inr t \<Rightarrow> (s, [WriteFile file_out (substitute subs t)], Inr ()))"
  by (simp add: file_injection_def act_defs split: sum.splits)

text \<open>What holds of the two methods by themselves, on any object.\<close>

lemma SampleTest_injection_nothing:
  "SampleTest_injection w st = (st, [], Inr ()) \<and>
   list_all (\<lambda>ev. \<not> is_write ev) (fst (snd (SampleTest_run_test w st')))"
  using run_test_no_write[of w]
  by (simp add: SampleTest_injection_def ret_def emits_def)

lemma ComponentTest_injection_cases:
  "ComponentTest_injection w ct =
     (case open_r w (str_opt (test_name ct) @ ''.py.yaml'') of
        Inl e \<Rightarrow> (ct, [], Inl e)
      | Inr t \<Rightarrow>
          (ct,
           replicate (if test_name ct = Some ''xgboost_training_cm'' then 2 else 1)
             (WriteFile (str_opt (test_name ct) @ ''.py.yaml.tmp'')
                (substitute (injection_subs w ct) t)),
           Inr ()))"
  by (auto simp: injection_subs_def Let_def ComponentTest_injection_def bnd_def getf_def ret_def
      file_injection_cases numeral_2_eq_2 split: sum.splits)

text \<open>
  Claim C5, which the code does not keep. A component test is to end with a substituted
  copy of the compiled artifact, and injection is to do nothing where no substitution is
  needed. In the code:
  \<^item> no component test gets as far as injection: \<open>ComponentTest.__init__\<close> raises \<open>TypeError\<close>
    for every argument and in every world, having done nothing, because it calls the
    constructor of \<open>SampleTest\<close> with the keyword \<open>test_name\<close>, which that constructor does
    not have;
  \<^item> on a component-test object put together by hand, \<open>_injection\<close> after \<open>_compile\<close> reads
    \<open>a.py.yaml\<close> in the working directory and writes \<open>a.py.yaml.tmp\<close>, for a test that is
    not \<open>xgboost_training_cm\<close> (the comment of line 261 says that only that one needs
    injection, and line 263 injects all the same);
  \<^item> in the whole \<open>run_test\<close> of that object the compiler writes the artifact to the
    temporary file \<open>/tmp/x.yaml\<close>, injection neither reads nor writes that file, and the
    checker is given \<open>/tmp/x.yaml\<close>, not the substituted copy.
\<close>

theorem component_test_injection:
  "ComponentTest_init w test_name' results_gcs_dir' gcp_image local_confusionmatrix_image'
     local_roc_image' target_image_prefix' namespace' = ([], Inl (Exn TypeError [] None)) \<and>
   ComponentTest_injection yaml_beside_world
     (component_script_test\<lparr>test_name := Some ''a'', is_notebook := Some False,
        run_pipeline := Some (YBool True), compiled_path := Some ''/tmp/x.yaml''\<rparr>) =
     (component_script_test\<lparr>test_name := Some ''a'', is_notebook := Some False,
        run_pipeline := Some (YBool True), compiled_path := Some ''/tmp/x.yaml''\<rparr>,
      [WriteFile ''a.py.yaml.tmp'' ''image: roc-img # x''],
      Inr ()) \<and>
   ComponentTest_run_test yaml_beside_world component_script_test =
     (component_script_test\<lparr>test_name := Some ''a'', is_notebook := Some False,
        run_pipeline := Some (YBool True), compiled_path := Some ''/tmp/x.yaml''\<rparr>,
      [CreateTempFile ''/tmp/x.yaml'',
       Subprocess [''kfp'', ''dsl'', ''compile'', ''--py'', ''/s/a.py'', ''--output'',
                   ''/tmp/x.yaml''] (Inr 0),
       WriteFile ''a.py.yaml.tmp'' ''image: roc-img # x'',
       SetEnv ''KF_PIPELINES_OVERRIDE_EXPERIMENT_NAME'' ''a-test'',
       Chdir ''/t'',
       PySampleChecker
         \<lparr>py_testname = ''a'', py_input = Some ''/tmp/x.yaml'', py_output = ''gs://r'',
          py_result = ''junit_SampleNoneOutput.xml'', py_host = ''http://h'',
          py_namespace = ''kubeflow'', py_experiment_name = ''a-test''\<rparr> Construct,
       PySampleChecker
         \<lparr>py_testname = ''a'', py_input = Some ''/tmp/x.yaml'', py_output = ''gs://r'',
          py_result = ''junit_SampleNoneOutput.xml'', py_host = ''http://h'',
          py_namespace = ''kubeflow'', py_experiment_name = ''a-test''\<rparr> Run,
       PySampleChecker
         \<lparr>py_testname = ''a'', py_input = Some ''/tmp/x.yaml'', py_output = ''gs://r'',
          py_result = ''junit_SampleNoneOutput.xml'', py_host = ''http://h'',
          py_namespace = ''kubeflow'', py_experiment_name = ''a-test''\<rparr> Check],
      Inr ())"
proof -
  have i: "ComponentTest_init w test_name' results_gcs_dir' gcp_image
      local_confusionmatrix_image' local_roc_image' target_image_prefix' namespace'
      = ([], Inl (Exn TypeError [] None))"
    by (simp add: ComponentTest_init_def SampleTest_init_keywords_def
        SampleTest_init_parameters_def)
  have j: "ComponentTest_injection yaml_beside_world
     (component_script_test\<lparr>test_name := Some ''a'', is_notebook := Some False,
        run_pipeline := Some (YBool True), compiled_path := Some ''/tmp/x.yaml''\<rparr>) =
     (component_script_test\<lparr>test_name := Some ''a'', is_notebook := Some False,
        run_pipeline := Some (YBool True), compiled_path := Some ''/tmp/x.yaml''\<rparr>,
      [WriteFile ''a.py.yaml.tmp'' ''image: roc-img # x''],
      Inr ())"
    by code_simp
  have r: "ComponentTest_run_test yaml_beside_world component_script_test =
     (component_script_test\<lparr>test_name := Some ''a'', is_notebook := Some False,
        run_pipeline := Some (YBool True), compiled_path := Some ''/tmp/x.yaml''\<rparr>,
      [CreateTempFile ''/tmp/x.yaml'',
       Subprocess [''kfp'', ''dsl'', ''compile'', ''--py'', ''/s/a.py'', ''--output'',
                   ''/tmp/x.yaml''] (Inr 0),
       WriteFile ''a.py.yaml.tmp'' ''image: roc-img # x'',
       SetEnv ''KF_PIPELINES_OVERRIDE_EXPERIMENT_NAME'' ''a-test'',
       Chdir ''/t'',
       PySampleChecker
         \<lparr>py_testname = ''a'', py_input = Some ''/tmp/x.yaml'', py_output = ''gs://r'',
          py_result = ''junit_SampleNoneOutput.xml'', py_host = ''http://h'',
          py_namespace = ''kubeflow'', py_experiment_name = ''a-test''\<rparr> Construct,
       PySampleChecker
         \<lparr>py_testname = ''a'', py_input = Some ''/tmp/x.yaml'', py_output = ''gs://r'',
          py_result = ''junit_SampleNoneOutput.xml'', py_host = ''http://h'',
          py_namespace = ''kubeflow'', py_experiment_name = ''a-test''\<rparr> Run,
       PySampleChecker
         \<lparr>py_testname = ''a'', py_input = Some ''/tmp/x.yaml'', py_output = ''gs://r'',
          py_result = ''junit_SampleNoneOutput.xml'', py_host = ''http://h'',
          py_namespace = ''kubeflow'', py_experiment_name = ''a-test''\<rparr> Check],
      Inr ())"
    by code_simp
  from i j r show ?thesis
    by simp
qed

section \<open>Caching in the sample pipeline\<close>

text \<open>
  Claim C8. The sample pipeline turns caching off on exactly two tasks, through
  \<open>set_caching_options(False)\<close>: the \<open>inner_comp\<close> task of \<open>inner_pipeline\<close> and the
  \<open>outer_comp\<close> task of \<open>outer_pipeline\<close>. The third task, the call of \<open>inner_pipeline\<close> in
  \<open>outer_pipeline\<close>, is not configured.
\<close>

theorem caching:
  "tasks_of inner_pipeline =
     [\<lparr>callee = Component ''inner_comp'', arguments = [], caching = Some False\<rparr>] \<and>
   tasks_of outer_pipeline =
     [\<lparr>callee = Pipeline ''inner_pipeline'', arguments = [], caching = None\<rparr>,
      \<lparr>callee = Component ''outer_comp'', arguments = [(''input'', Output 0)],
       caching = Some False\<rparr>] \<and>
   length (filter (\<lambda>t. caching t = Some False)
             (tasks_of inner_pipeline @ tasks_of outer_pipeline)) = 2"
  by (simp add: tasks_of_def inner_pipeline_def outer_pipeline_def new_task_def
      set_caching_options_def act_defs)

end
